theory Spec2Isabelle
  imports Main
begin

section \<open>Data model (lib/db/indexed-db.ts)\<close>

text \<open>
  Dates are their \<^verbatim>\<open>getTime()\<close> value, an integer number of milliseconds; JavaScript
  numbers that hold counts and versions are integers; an optional property is an
  \<open>option\<close>.
\<close>

datatype ApplicationStatus = WISHLIST | APPLIED | SCREENING | INTERVIEW | OFFER | REJECTED

text \<open>
  \<^verbatim>\<open>Omit<Application, "id" | "createdAt" | "updatedAt" | "lastSyncedAt" | "version">\<close>,
  the argument of \<^verbatim>\<open>addApplication\<close>; \<^verbatim>\<open>Application\<close> extends it with the five
  omitted properties.
\<close>

record ApplicationData =
  userId :: string
  company :: string
  position :: string
  location :: "string option"
  salaryMin :: "int option"
  salaryMax :: "int option"
  status :: ApplicationStatus
  applicationDate :: "int option"
  deadline :: "int option"
  followUpDate :: "int option"
  url :: "string option"
  app_notes :: "string option"

record Application = ApplicationData +
  app_id :: string
  createdAt :: int
  updatedAt :: int
  lastSyncedAt :: int
  version :: int

record Contact =
  c_id :: string
  c_applicationId :: string
  c_name :: string
  c_email :: "string option"
  c_phone :: "string option"
  c_role :: "string option"
  c_notes :: "string option"
  c_createdAt :: int
  c_updatedAt :: int

record Document =
  d_id :: string
  d_applicationId :: string
  d_name :: string
  d_type :: string
  d_url :: string
  d_createdAt :: int
  d_updatedAt :: int

text \<open>
  \<^verbatim>\<open>Partial<Application>\<close>: every property of \<^verbatim>\<open>Application\<close>, each of them optional.
  It is the type of the \<^verbatim>\<open>updates\<close> of \<^verbatim>\<open>updateApplication\<close>, and the model's type for
  the \<^verbatim>\<open>data: any\<close> of a queued operation, which the store fills with a whole
  application (CREATE, UPDATE) or with \<^verbatim>\<open>{ id }\<close> (DELETE).
\<close>

record ApplicationPatch =
  p_userId :: "string option"
  p_company :: "string option"
  p_position :: "string option"
  p_location :: "string option"
  p_salaryMin :: "int option"
  p_salaryMax :: "int option"
  p_status :: "ApplicationStatus option"
  p_applicationDate :: "int option"
  p_deadline :: "int option"
  p_followUpDate :: "int option"
  p_url :: "string option"
  p_notes :: "string option"
  p_id :: "string option"
  p_createdAt :: "int option"
  p_updatedAt :: "int option"
  p_lastSyncedAt :: "int option"
  p_version :: "int option"

definition empty_patch :: ApplicationPatch where
  "empty_patch = \<lparr>p_userId = None, p_company = None, p_position = None, p_location = None,
     p_salaryMin = None, p_salaryMax = None, p_status = None, p_applicationDate = None,
     p_deadline = None, p_followUpDate = None, p_url = None, p_notes = None, p_id = None,
     p_createdAt = None, p_updatedAt = None, p_lastSyncedAt = None, p_version = None\<rparr>"

text \<open>A whole application seen as an object of properties that are all present.\<close>

definition patch_of :: "Application \<Rightarrow> ApplicationPatch" where
  "patch_of a = \<lparr>p_userId = Some (userId a), p_company = Some (company a),
     p_position = Some (position a), p_location = location a, p_salaryMin = salaryMin a,
     p_salaryMax = salaryMax a, p_status = Some (status a),
     p_applicationDate = applicationDate a, p_deadline = deadline a,
     p_followUpDate = followUpDate a, p_url = url a, p_notes = app_notes a,
     p_id = Some (app_id a), p_createdAt = Some (createdAt a),
     p_updatedAt = Some (updatedAt a), p_lastSyncedAt = Some (lastSyncedAt a),
     p_version = Some (version a)\<rparr>"

text \<open>
  The object spread \<^verbatim>\<open>{ ...app, ...patch }\<close>: a property present in the patch replaces the
  application's, an absent one leaves it.
\<close>

definition override :: "'a option \<Rightarrow> 'a \<Rightarrow> 'a" where
  "override new old = (case new of None \<Rightarrow> old | Some v \<Rightarrow> v)"

definition override_opt :: "'a option \<Rightarrow> 'a option \<Rightarrow> 'a option" where
  "override_opt new old = (case new of None \<Rightarrow> old | Some v \<Rightarrow> Some v)"

definition apply_patch :: "ApplicationPatch \<Rightarrow> Application \<Rightarrow> Application" where
  "apply_patch p a = \<lparr>userId = override (p_userId p) (userId a),
     company = override (p_company p) (company a),
     position = override (p_position p) (position a),
     location = override_opt (p_location p) (location a),
     salaryMin = override_opt (p_salaryMin p) (salaryMin a),
     salaryMax = override_opt (p_salaryMax p) (salaryMax a),
     status = override (p_status p) (status a),
     applicationDate = override_opt (p_applicationDate p) (applicationDate a),
     deadline = override_opt (p_deadline p) (deadline a),
     followUpDate = override_opt (p_followUpDate p) (followUpDate a),
     url = override_opt (p_url p) (url a),
     app_notes = override_opt (p_notes p) (app_notes a),
     app_id = override (p_id p) (app_id a),
     createdAt = override (p_createdAt p) (createdAt a),
     updatedAt = override (p_updatedAt p) (updatedAt a),
     lastSyncedAt = override (p_lastSyncedAt p) (lastSyncedAt a),
     version = override (p_version p) (version a)\<rparr>"

datatype SyncOperationType = CREATE | UPDATE | DELETE

datatype SyncEntityType = application | contact | document

record SyncOperation =
  op_id :: string
  op_type :: SyncOperationType
  entity :: SyncEntityType
  entityId :: string
  data :: ApplicationPatch
  timestamp :: int
  synced :: bool
  retryCount :: nat
  error :: "string option"

text \<open>
  \<^verbatim>\<open>JobTrackerDB\<close>: four tables keyed by \<^verbatim>\<open>id\<close>. The three record tables are maps from
  the key. The sync queue is the list of its rows, one row for each key, in the order in
  which the table's queries return them; that order is the storage's (it goes by the
  keys of the rows), not the order of insertion.
\<close>

record JobTrackerDB =
  applications :: "string \<rightharpoonup> Application"
  contacts :: "string \<rightharpoonup> Contact"
  documents :: "string \<rightharpoonup> Document"
  syncQueue :: "SyncOperation list"

subsection \<open>dbHelpers\<close>

text \<open>
  \<^verbatim>\<open>
  async getUnsyncedOperations(): Promise<SyncOperation[]> {
    return await db.syncQueue.where("synced").equals(0).toArray();
  }
  \<close>
  The query goes through the index on \<^verbatim>\<open>synced\<close> and asks for the rows whose key
  there is the number 0. The keys of an IndexedDB index are numbers, strings, dates,
  binary data and arrays of these: a boolean is not a key, and a row whose indexed
  property is not a key has no entry in the index. \<^verbatim>\<open>synced\<close> is declared
  \<^verbatim>\<open>boolean\<close> and is only ever written as one (\<^verbatim>\<open>synced: false\<close> in
  \<^verbatim>\<open>addToSyncQueue\<close>, \<^verbatim>\<open>{ synced: true }\<close> in \<^verbatim>\<open>markOperationSynced\<close>).
\<close>

datatype index_key = NumberKey int | StringKey string

definition boolean_key :: "bool \<Rightarrow> index_key option" where
  "boolean_key b = None"

definition getUnsyncedOperations :: "JobTrackerDB \<Rightarrow> SyncOperation list" where
  "getUnsyncedOperations db =
     filter (\<lambda>op. boolean_key (synced op) = Some (NumberKey 0)) (syncQueue db)"

text \<open>
  \<^verbatim>\<open>db.syncQueue.update(key, changes)\<close> changes the row with that key, if there is one.
\<close>

definition syncQueue_table_update ::
  "string \<Rightarrow> (SyncOperation \<Rightarrow> SyncOperation) \<Rightarrow> JobTrackerDB \<Rightarrow> JobTrackerDB" where
  "syncQueue_table_update key changes db =
     db\<lparr>syncQueue := map (\<lambda>op. if op_id op = key then changes op else op) (syncQueue db)\<rparr>"

definition syncQueue_table_get :: "string \<Rightarrow> JobTrackerDB \<Rightarrow> SyncOperation option" where
  "syncQueue_table_get key db = find (\<lambda>op. op_id op = key) (syncQueue db)"

text \<open>
  \<^verbatim>\<open>
  async markOperationSynced(operationId: string): Promise<void> {
    await db.syncQueue.update(operationId, { synced: true });
  }
  \<close>
\<close>

definition markOperationSynced :: "string \<Rightarrow> JobTrackerDB \<Rightarrow> JobTrackerDB" where
  "markOperationSynced operationId db =
     syncQueue_table_update operationId (\<lambda>op. op\<lparr>synced := True\<rparr>) db"

text \<open>
  \<^verbatim>\<open>
  async incrementRetryCount(operationId: string, error: string): Promise<void> {
    const operation = await db.syncQueue.get(operationId);
    if (operation) {
      await db.syncQueue.update(operationId, {
        retryCount: operation.retryCount + 1,
        error,
      });
    }
  }
  \<close>
\<close>

definition incrementRetryCount :: "string \<Rightarrow> string \<Rightarrow> JobTrackerDB \<Rightarrow> JobTrackerDB" where
  "incrementRetryCount operationId err db =
     (case syncQueue_table_get operationId db of
        None \<Rightarrow> db
      | Some operation \<Rightarrow>
          syncQueue_table_update operationId
            (\<lambda>op. op\<lparr>retryCount := retryCount operation + 1, error := Some err\<rparr>) db)"

text \<open>
  What a local mutation reads from its surroundings: the two \<^verbatim>\<open>crypto.randomUUID()\<close>
  results, the two clock readings (\<^verbatim>\<open>new Date()\<close> in the store, \<^verbatim>\<open>Date.now()\<close> in
  \<^verbatim>\<open>addToSyncQueue\<close>), the place that the storage gives the new row of the queue
  among the rows already there, and whether the storage rejects the write to the
  applications table or the write to the sync queue (for example with
  \<^verbatim>\<open>QuotaExceededError\<close>); the string is the error's message.
\<close>

record mutation_env =
  uuid :: string
  clock :: int
  op_uuid :: string
  op_clock :: int
  op_place :: nat
  record_fault :: "string option"
  queue_fault :: "string option"

text \<open>
  \<^verbatim>\<open>
  async addToSyncQueue(type, entity, entityId, data): Promise<string> {
    const id = crypto.randomUUID();
    await db.syncQueue.add({
      id, type, entity, entityId, data,
      timestamp: Date.now(), synced: false, retryCount: 0,
    });
    return id;
  }
  \<close>
  \<^verbatim>\<open>Table.add\<close> rejects when the key is already in the table.
\<close>

definition addToSyncQueue ::
  "mutation_env \<Rightarrow> SyncOperationType \<Rightarrow> SyncEntityType \<Rightarrow> string \<Rightarrow> ApplicationPatch
     \<Rightarrow> JobTrackerDB \<Rightarrow> string + (string \<times> JobTrackerDB)" where
  "addToSyncQueue env type ent entId dat db =
     (case queue_fault env of
        Some msg \<Rightarrow> Inl msg
      | None \<Rightarrow>
          if op_uuid env \<in> op_id ` set (syncQueue db) then Inl ''ConstraintError''
          else Inr (op_uuid env,
                 db\<lparr>syncQueue := take (op_place env) (syncQueue db) @
                   [\<lparr>op_id = op_uuid env, op_type = type, entity = ent, entityId = entId,
                     data = dat, timestamp = op_clock env, synced = False, retryCount = 0,
                     error = None\<rparr>]
                   @ drop (op_place env) (syncQueue db)\<rparr>))"

section \<open>Application store (lib/stores/application-store.ts)\<close>

text \<open>
  The part of the store's state that the three mutations write; \<^verbatim>\<open>filterStatus\<close> and
  \<^verbatim>\<open>searchQuery\<close> are left alone by them.
\<close>

record ApplicationStore =
  store_applications :: "Application list"
  selectedApplication :: "Application option"
  isLoading :: bool
  store_error :: "string option"

text \<open>The \<^verbatim>\<open>catch\<close> block shared by the three mutations: record the message, rethrow.\<close>

definition store_catch :: "string \<Rightarrow> ApplicationStore \<Rightarrow> ApplicationStore" where
  "store_catch msg st = st\<lparr>store_error := Some msg, isLoading := False\<rparr>"

definition store_begin :: "ApplicationStore \<Rightarrow> ApplicationStore" where
  "store_begin st = st\<lparr>isLoading := True, store_error := None\<rparr>"

text \<open>
  \<^verbatim>\<open>
  addApplication: async (applicationData) => {
    set({ isLoading: true, error: null });
    try {
      const now = new Date();
      const application: Application = {
        ...applicationData, id: crypto.randomUUID(),
        createdAt: now, updatedAt: now, lastSyncedAt: now, version: 1,
      };
      await db.applications.add(application);
      await dbHelpers.addToSyncQueue("CREATE", "application", application.id, application);
      set((state) => ({
        applications: [...state.applications, application], isLoading: false }));
      return application;
    } catch (error) {
      set({ error: errorMessage, isLoading: false });
      throw error;
    }
  }
  \<close>
  The result is the returned application, or \<open>Inl\<close> the message of the error thrown,
  together with the store and the database as the call leaves them.
\<close>

definition new_application :: "mutation_env \<Rightarrow> ApplicationData \<Rightarrow> Application" where
  "new_application env d = \<lparr>userId = userId d, company = company d, position = position d,
     location = location d, salaryMin = salaryMin d, salaryMax = salaryMax d,
     status = status d, applicationDate = applicationDate d, deadline = deadline d,
     followUpDate = followUpDate d, url = url d, app_notes = app_notes d,
     app_id = uuid env, createdAt = clock env, updatedAt = clock env,
     lastSyncedAt = clock env, version = 1\<rparr>"

definition applications_table_add ::
  "mutation_env \<Rightarrow> Application \<Rightarrow> JobTrackerDB \<Rightarrow> string + JobTrackerDB" where
  "applications_table_add env a db =
     (case record_fault env of
        Some msg \<Rightarrow> Inl msg
      | None \<Rightarrow>
          if app_id a \<in> dom (applications db) then Inl ''ConstraintError''
          else Inr (db\<lparr>applications := (applications db)(app_id a \<mapsto> a)\<rparr>))"

definition addApplication ::
  "mutation_env \<Rightarrow> ApplicationData \<Rightarrow> ApplicationStore \<Rightarrow> JobTrackerDB
     \<Rightarrow> (string + Application) \<times> ApplicationStore \<times> JobTrackerDB" where
  "addApplication env applicationData st db =
     (let st1 = store_begin st;
          app = new_application env applicationData
      in case applications_table_add env app db of
           Inl msg \<Rightarrow> (Inl msg, store_catch msg st1, db)
         | Inr db1 \<Rightarrow>
             (case addToSyncQueue env CREATE application (app_id app) (patch_of app) db1 of
                Inl msg \<Rightarrow> (Inl msg, store_catch msg st1, db1)
              | Inr (_, db2) \<Rightarrow>
                  (Inr app,
                   st1\<lparr>store_applications := store_applications st1 @ [app],
                       isLoading := False\<rparr>,
                   db2)))"

text \<open>
  \<^verbatim>\<open>
  updateApplication: async (id, updates) => {
    set({ isLoading: true, error: null });
    try {
      const now = new Date();
      const updatedData = {
        ...updates, updatedAt: now, version: (updates.version || 1) + 1 };
      await db.applications.update(id, updatedData);
      const updatedApp = await db.applications.get(id);
      if (!updatedApp) { throw new Error("Application not found after update"); }
      await dbHelpers.addToSyncQueue("UPDATE", "application", id, updatedApp);
      set((state) => ({
        applications: state.applications.map((app) =>
          app.id === id ? { ...app, ...updatedData } : app),
        selectedApplication: state.selectedApplication?.id === id
            ? { ...state.selectedApplication, ...updatedData }
            : state.selectedApplication,
        isLoading: false }));
    } catch (error) { ... }
  }
  \<close>
  \<^verbatim>\<open>updates.version || 1\<close> is 1 when the version is absent and also when it is 0, the
  one integer that is falsy.
\<close>

definition version_or_1 :: "int option \<Rightarrow> int" where
  "version_or_1 v = (case v of None \<Rightarrow> 1 | Some n \<Rightarrow> if n = 0 then 1 else n)"

definition updatedData :: "mutation_env \<Rightarrow> ApplicationPatch \<Rightarrow> ApplicationPatch" where
  "updatedData env updates =
     updates\<lparr>p_updatedAt := Some (clock env),
             p_version := Some (version_or_1 (p_version updates) + 1)\<rparr>"

text \<open>
  \<^verbatim>\<open>db.applications.update(id, changes)\<close> changes the row with that key and does nothing
  when there is none.
\<close>

definition applications_table_update ::
  "mutation_env \<Rightarrow> string \<Rightarrow> ApplicationPatch \<Rightarrow> JobTrackerDB \<Rightarrow> string + JobTrackerDB" where
  "applications_table_update env key changes db =
     (case record_fault env of
        Some msg \<Rightarrow> Inl msg
      | None \<Rightarrow>
          (case applications db key of
             None \<Rightarrow> Inr db
           | Some a \<Rightarrow> Inr (db\<lparr>applications := (applications db)(key \<mapsto> apply_patch changes a)\<rparr>)))"

definition updateApplication ::
  "mutation_env \<Rightarrow> string \<Rightarrow> ApplicationPatch \<Rightarrow> ApplicationStore \<Rightarrow> JobTrackerDB
     \<Rightarrow> (string + unit) \<times> ApplicationStore \<times> JobTrackerDB" where
  "updateApplication env key updates st db =
     (let st1 = store_begin st;
          upd = updatedData env updates
      in case applications_table_update env key upd db of
           Inl msg \<Rightarrow> (Inl msg, store_catch msg st1, db)
         | Inr db1 \<Rightarrow>
             (case applications db1 key of
                None \<Rightarrow>
                  (Inl ''Application not found after update'',
                   store_catch ''Application not found after update'' st1, db1)
              | Some updatedApp \<Rightarrow>
                  (case addToSyncQueue env UPDATE application key (patch_of updatedApp) db1 of
                     Inl msg \<Rightarrow> (Inl msg, store_catch msg st1, db1)
                   | Inr (_, db2) \<Rightarrow>
                       (Inr (),
                        st1\<lparr>store_applications :=
                              map (\<lambda>app. if app_id app = key then apply_patch upd app else app)
                                (store_applications st1),
                            selectedApplication :=
                              (case selectedApplication st1 of
                                 None \<Rightarrow> None
                               | Some sel \<Rightarrow>
                                   if app_id sel = key then Some (apply_patch upd sel)
                                   else Some sel),
                            isLoading := False\<rparr>,
                        db2))))"

text \<open>
  \<^verbatim>\<open>
  deleteApplication: async (id) => {
    set({ isLoading: true, error: null });
    try {
      const app = await db.applications.get(id);
      if (!app) { throw new Error("Application not found"); }
      await db.applications.delete(id);
      await dbHelpers.addToSyncQueue("DELETE", "application", id, { id });
      set((state) => ({
        applications: state.applications.filter((app) => app.id !== id),
        selectedApplication:
          state.selectedApplication?.id === id ? null : state.selectedApplication,
        isLoading: false }));
    } catch (error) { ... }
  }
  \<close>
\<close>

definition applications_table_delete ::
  "mutation_env \<Rightarrow> string \<Rightarrow> JobTrackerDB \<Rightarrow> string + JobTrackerDB" where
  "applications_table_delete env key db =
     (case record_fault env of
        Some msg \<Rightarrow> Inl msg
      | None \<Rightarrow> Inr (db\<lparr>applications := (applications db)(key := None)\<rparr>))"

definition deleteApplication ::
  "mutation_env \<Rightarrow> string \<Rightarrow> ApplicationStore \<Rightarrow> JobTrackerDB
     \<Rightarrow> (string + unit) \<times> ApplicationStore \<times> JobTrackerDB" where
  "deleteApplication env key st db =
     (let st1 = store_begin st
      in case applications db key of
           None \<Rightarrow>
             (Inl ''Application not found'', store_catch ''Application not found'' st1, db)
         | Some _ \<Rightarrow>
             (case applications_table_delete env key db of
                Inl msg \<Rightarrow> (Inl msg, store_catch msg st1, db)
              | Inr db1 \<Rightarrow>
                  (case addToSyncQueue env DELETE application key
                          (empty_patch\<lparr>p_id := Some key\<rparr>) db1 of
                     Inl msg \<Rightarrow> (Inl msg, store_catch msg st1, db1)
                   | Inr (_, db2) \<Rightarrow>
                       (Inr (),
                        st1\<lparr>store_applications :=
                              filter (\<lambda>app. app_id app \<noteq> key) (store_applications st1),
                            selectedApplication :=
                              (case selectedApplication st1 of
                                 None \<Rightarrow> None
                               | Some sel \<Rightarrow> if app_id sel = key then None else Some sel),
                            isLoading := False\<rparr>,
                        db2))))"

text \<open>
  \<^verbatim>\<open>changeStatus\<close> of hooks/useApplications.ts:
  \<^verbatim>\<open>await updateApplication(id, { status });\<close>
\<close>

definition changeStatus ::
  "mutation_env \<Rightarrow> string \<Rightarrow> ApplicationStatus \<Rightarrow> ApplicationStore \<Rightarrow> JobTrackerDB
     \<Rightarrow> (string + unit) \<times> ApplicationStore \<times> JobTrackerDB" where
  "changeStatus env key s st db =
     updateApplication env key (empty_patch\<lparr>p_status := Some s\<rparr>) st db"

section \<open>Sync engine (lib/sync/sync-engine.ts)\<close>

text \<open>
  \<^verbatim>\<open>
  const MAX_RETRY_COUNT = 5;
  const RETRY_DELAYS = [1000, 2000, 4000, 8000, 16000]; // Exponential backoff in ms
  \<close>
\<close>

definition MAX_RETRY_COUNT :: nat where
  "MAX_RETRY_COUNT = 5"

definition RETRY_DELAYS :: "nat list" where
  "RETRY_DELAYS = [1000, 2000, 4000, 8000, 16000]"

text \<open>
  \<^verbatim>\<open>const MAX_BATCH_SIZE = 50;\<close>
\<close>

definition MAX_BATCH_SIZE :: nat where
  "MAX_BATCH_SIZE = 50"

text \<open>
  \<^verbatim>\<open>items.slice(start, end)\<close> for non-negative indices: the elements at positions
  \<open>start \<le> k < finish\<close> that exist.
\<close>

definition slice :: "'a list \<Rightarrow> nat \<Rightarrow> nat \<Rightarrow> 'a list" where
  "slice items start finish = take (finish - start) (drop start items)"

text \<open>
  \<^verbatim>\<open>
  private createBatches<T>(items: T[], batchSize: number): T[][] {
    const batches: T[][] = [];
    for (let i = 0; i < items.length; i += batchSize) {
      batches.push(items.slice(i, i + batchSize));
    }
    return batches;
  }
  \<close>
  The loop does not end when \<open>batchSize\<close> is 0 and \<open>items\<close> is not empty, so the
  loop is a partial function: \<open>None\<close> is "does not return".
\<close>

partial_function (option) createBatches_loop ::
  "'a list \<Rightarrow> nat \<Rightarrow> nat \<Rightarrow> 'a list list \<Rightarrow> 'a list list option" where
  "createBatches_loop items batchSize i batches =
     (if i < length items
      then createBatches_loop items batchSize (i + batchSize)
             (batches @ [slice items i (i + batchSize)])
      else Some batches)"

definition createBatches :: "'a list \<Rightarrow> nat \<Rightarrow> 'a list list option" where
  "createBatches items batchSize = createBatches_loop items batchSize 0 []"

datatype SyncStatus = status_idle | status_syncing | status_error | status_success

record SyncState =
  state_status :: SyncStatus
  progress :: nat
  total :: nat
  state_error :: "string option"

text \<open>The two flags of the engine object.\<close>

record SyncEngine =
  isOnline :: bool
  isSyncing :: bool

text \<open>
  The \<^verbatim>\<open>serverData: any\<close> of a conflict reply is a row of one of the three tables.
\<close>

datatype server_record =
  ServerApplication Application | ServerContact Contact | ServerDocument Document

fun server_updatedAt :: "server_record \<Rightarrow> int" where
  "server_updatedAt (ServerApplication a) = updatedAt a"
| "server_updatedAt (ServerContact c) = c_updatedAt c"
| "server_updatedAt (ServerDocument d) = d_updatedAt d"

fun server_entity :: "server_record \<Rightarrow> SyncEntityType" where
  "server_entity (ServerApplication a) = application"
| "server_entity (ServerContact c) = contact"
| "server_entity (ServerDocument d) = document"

text \<open>
  What \<^verbatim>\<open>fetch("/api/sync", ...)\<close> and \<^verbatim>\<open>response.json()\<close> give for one operation:
  the request or the parsing of the body throws (with a message), the response is not
  \<^verbatim>\<open>ok\<close> (with its \<^verbatim>\<open>statusText\<close>), or the body is read, with its \<^verbatim>\<open>conflict\<close> flag
  and its \<^verbatim>\<open>serverData\<close>.
\<close>

datatype sync_response =
  FetchRejected string | NotOk string | Json bool "server_record option"

text \<open>
  What a pass does that can be seen from outside, in the order in which it does it: a
  state sent to the listeners, a request sent to the endpoint, a retry timer set (with
  its delay in ms), the promise of one \<^verbatim>\<open>processOperation\<close> settled (fulfilled, or
  rejected with a message).
\<close>

datatype sync_event =
  Notify SyncState
  | Fetch SyncOperation
  | SetTimeout nat
  | Settled SyncOperation "string option"

text \<open>
  What a pass reads from its surroundings: the clock, the endpoint's answer to each
  operation, how long each answer takes (the answers of one batch are handled in the
  order of their arrival), and whether reading the queue is rejected by the storage.
  Writes to the local database during a pass are taken to succeed.
\<close>

record sync_env =
  sync_clock :: int
  respond :: "SyncOperation \<Rightarrow> sync_response"
  latency :: "SyncOperation \<Rightarrow> nat"
  queue_read_fault :: "string option"

text \<open>
  \<^verbatim>\<open>
  private async resolveConflict(localOperation: SyncOperation, serverData: any) {
    // Last-write-wins strategy based on timestamps
    const serverTimestamp = new Date(serverData.updatedAt).getTime();
    const localTimestamp = localOperation.timestamp;
    if (serverTimestamp > localTimestamp) {
      // Server wins - update local data
      switch (localOperation.entity) {
        case "application":
          await db.applications.put({ ...serverData, lastSyncedAt: new Date() });
          break;
        case "contact":  await db.contacts.put(serverData);  break;
        case "document": await db.documents.put(serverData); break;
      }
    }
    // If local is newer, the server will be updated by the sync operation
  }
  \<close>
  The tables of the model are typed: a server row of another entity than the
  operation's has no place in the table that the \<^verbatim>\<open>switch\<close> selects, and the model
  writes nothing for it.
\<close>

definition resolveConflict ::
  "int \<Rightarrow> SyncOperation \<Rightarrow> server_record \<Rightarrow> JobTrackerDB \<Rightarrow> JobTrackerDB" where
  "resolveConflict now localOperation serverData db =
     (let serverTimestamp = server_updatedAt serverData;
          localTimestamp = timestamp localOperation
      in if serverTimestamp > localTimestamp
         then (case (entity localOperation, serverData) of
                 (application, ServerApplication a) \<Rightarrow>
                   db\<lparr>applications := (applications db)(app_id a \<mapsto> a\<lparr>lastSyncedAt := now\<rparr>)\<rparr>
               | (contact, ServerContact c) \<Rightarrow>
                   db\<lparr>contacts := (contacts db)(c_id c \<mapsto> c)\<rparr>
               | (document, ServerDocument d) \<Rightarrow>
                   db\<lparr>documents := (documents db)(d_id d \<mapsto> d)\<rparr>
               | _ \<Rightarrow> db)
         else db)"

text \<open>
  \<^verbatim>\<open>
  private async processOperation(operation: SyncOperation): Promise<void> {
    try {
      const response = await fetch("/api/sync", { method: "POST", ... });
      if (!response.ok) { throw new Error(`Sync failed: ${response.statusText}`); }
      const result = await response.json();
      // Handle conflicts
      if (result.conflict) { await this.resolveConflict(operation, result.serverData); }
      // Mark as synced
      await dbHelpers.markOperationSynced(operation.id);
    } catch (error) {
      // Increment retry count with exponential backoff
      const delay = RETRY_DELAYS[Math.min(operation.retryCount, RETRY_DELAYS.length - 1)];
      const errorMessage = error instanceof Error ? error.message : "Unknown error";
      await dbHelpers.incrementRetryCount(operation.id, errorMessage);
      // Schedule retry if under limit
      if (operation.retryCount + 1 < MAX_RETRY_COUNT) {
        setTimeout(() => { if (this.isOnline && !this.isSyncing) { this.sync(); } }, delay);
      }
      throw error;
    }
  }
  \<close>
  The call runs up to \<^verbatim>\<open>fetch\<close>, which sends the request, and goes on when the answer
  is there. \<open>processOperation_catch\<close> is the \<^verbatim>\<open>catch\<close> block, \<open>processOperation_resume\<close>
  is all that follows the \<^verbatim>\<open>await fetch\<close>. A conflict reply without \<^verbatim>\<open>serverData\<close>
  makes \<^verbatim>\<open>serverData.updatedAt\<close> throw a TypeError.
\<close>

definition processOperation_catch ::
  "SyncOperation \<Rightarrow> string \<Rightarrow> JobTrackerDB \<Rightarrow> JobTrackerDB \<times> sync_event list" where
  "processOperation_catch operation errorMessage db =
     (let delay = RETRY_DELAYS ! min (retryCount operation) (length RETRY_DELAYS - 1);
          db1 = incrementRetryCount (op_id operation) errorMessage db
      in (db1,
          (if retryCount operation + 1 < MAX_RETRY_COUNT then [SetTimeout delay] else [])
          @ [Settled operation (Some errorMessage)]))"

definition processOperation_resume ::
  "sync_env \<Rightarrow> SyncOperation \<Rightarrow> JobTrackerDB \<Rightarrow> JobTrackerDB \<times> sync_event list" where
  "processOperation_resume env operation db =
     (case respond env operation of
        FetchRejected msg \<Rightarrow> processOperation_catch operation msg db
      | NotOk statusText \<Rightarrow> processOperation_catch operation (''Sync failed: '' @ statusText) db
      | Json conflict serverData \<Rightarrow>
          if conflict
          then (case serverData of
                  None \<Rightarrow>
                    processOperation_catch operation ''Cannot read properties of undefined'' db
                | Some sd \<Rightarrow>
                    (markOperationSynced (op_id operation)
                       (resolveConflict (sync_clock env) operation sd db),
                     [Settled operation None]))
          else (markOperationSynced (op_id operation) db, [Settled operation None]))"

text \<open>A single operation from the call to the settling of its promise.\<close>

definition processOperation ::
  "sync_env \<Rightarrow> SyncOperation \<Rightarrow> JobTrackerDB \<Rightarrow> JobTrackerDB \<times> sync_event list" where
  "processOperation env operation db =
     (let (db1, events) = processOperation_resume env operation db
      in (db1, Fetch operation # events))"

text \<open>
  \<^verbatim>\<open>
  private async processBatch(operations: SyncOperation[]): Promise<void> {
    const promises = operations.map((op) => this.processOperation(op));
    await Promise.allSettled(promises);
  }
  \<close>
  \<^verbatim>\<open>map\<close> calls \<^verbatim>\<open>processOperation\<close> on every operation of the batch in turn, and each
  call returns its promise at \<^verbatim>\<open>await fetch\<close>: all the requests of the batch are sent,
  in the order of the batch, before any answer is handled. The answers are then handled
  in the order of their arrival, the handling of one answer being taken as one step (the
  handlings of two answers write different rows of the queue); \<^verbatim>\<open>allSettled\<close> waits
  for them all and ignores rejections.
\<close>

fun resume_all ::
  "sync_env \<Rightarrow> SyncOperation list \<Rightarrow> JobTrackerDB \<Rightarrow> JobTrackerDB \<times> sync_event list" where
  "resume_all env [] db = (db, [])"
| "resume_all env (operation # rest) db =
     (let (db1, events1) = processOperation_resume env operation db;
          (db2, events2) = resume_all env rest db1
      in (db2, events1 @ events2))"

definition processBatch ::
  "sync_env \<Rightarrow> SyncOperation list \<Rightarrow> JobTrackerDB \<Rightarrow> JobTrackerDB \<times> sync_event list" where
  "processBatch env operations db =
     (let (db1, events) = resume_all env (sort_key (latency env) operations) db
      in (db1, map Fetch operations @ events))"

text \<open>
  \<^verbatim>\<open>
  public async sync(): Promise<void> {
    if (!this.isOnline || this.isSyncing) { return; }
    this.isSyncing = true;
    this.notifyListeners({ status: "syncing", progress: 0, total: 0 });
    try {
      const operations = await dbHelpers.getUnsyncedOperations();
      const validOperations = operations.filter((op) => op.retryCount < MAX_RETRY_COUNT);
      if (validOperations.length === 0) {
        this.notifyListeners({ status: "success", progress: 0, total: 0 });
        this.isSyncing = false;
        return;
      }
      const batches = this.createBatches(validOperations, MAX_BATCH_SIZE);
      let completed = 0;
      for (const batch of batches) {
        await this.processBatch(batch);
        completed += batch.length;
        this.notifyListeners({
          status: "syncing", progress: completed, total: validOperations.length });
      }
      this.notifyListeners({ status: "success",
        progress: validOperations.length, total: validOperations.length });
    } catch (error) {
      const errorMessage = error instanceof Error ? error.message : "Sync failed";
      this.notifyListeners({ status: "error", progress: 0, total: 0, error: errorMessage });
      throw error;
    } finally {
      this.isSyncing = false;
    }
  }
  \<close>
  The result of a call is \<open>Inr ()\<close> when the promise is fulfilled and \<open>Inl\<close> the message
  when it is rejected, with the engine, the database and the events of the call;
  \<open>None\<close> is a call that does not return. \<open>sync_resume\<close> is all that follows
  \<^verbatim>\<open>await dbHelpers.getUnsyncedOperations()\<close> when the query is fulfilled, given the
  rows that it returned.
\<close>

definition notify :: "SyncStatus \<Rightarrow> nat \<Rightarrow> nat \<Rightarrow> string option \<Rightarrow> sync_event" where
  "notify s p t e = Notify \<lparr>state_status = s, progress = p, total = t, state_error = e\<rparr>"

fun sync_loop ::
  "sync_env \<Rightarrow> nat \<Rightarrow> nat \<Rightarrow> SyncOperation list list \<Rightarrow> JobTrackerDB
     \<Rightarrow> JobTrackerDB \<times> sync_event list" where
  "sync_loop env n completed [] db = (db, [])"
| "sync_loop env n completed (batch # batches) db =
     (let (db1, events1) = processBatch env batch db;
          completed1 = completed + length batch;
          (db2, events2) = sync_loop env n completed1 batches db1
      in (db2, events1 @ [notify status_syncing completed1 n None] @ events2))"

definition sync_resume ::
  "sync_env \<Rightarrow> SyncEngine \<Rightarrow> SyncOperation list \<Rightarrow> JobTrackerDB
     \<Rightarrow> ((string + unit) \<times> SyncEngine \<times> JobTrackerDB \<times> sync_event list) option" where
  "sync_resume env engine operations db =
     (let validOperations = filter (\<lambda>op. retryCount op < MAX_RETRY_COUNT) operations
      in if length validOperations = 0
         then Some (Inr (), engine\<lparr>isSyncing := False\<rparr>, db,
                    [notify status_success 0 0 None])
         else
           (case createBatches validOperations MAX_BATCH_SIZE of
              None \<Rightarrow> None
            | Some batches \<Rightarrow>
                (let (db1, events) = sync_loop env (length validOperations) 0 batches db
                 in Some (Inr (), engine\<lparr>isSyncing := False\<rparr>, db1,
                          events @
                          [notify status_success (length validOperations)
                             (length validOperations) None]))))"

definition sync ::
  "sync_env \<Rightarrow> SyncEngine \<Rightarrow> JobTrackerDB
     \<Rightarrow> ((string + unit) \<times> SyncEngine \<times> JobTrackerDB \<times> sync_event list) option" where
  "sync env engine db =
     (if \<not> isOnline engine \<or> isSyncing engine then Some (Inr (), engine, db, [])
      else
        (case queue_read_fault env of
           Some msg \<Rightarrow>
             Some (Inl msg, engine\<lparr>isSyncing := False\<rparr>, db,
                   [notify status_syncing 0 0 None, notify status_error 0 0 (Some msg)])
         | None \<Rightarrow>
             map_option
               (\<lambda>(result, engine1, db1, events).
                  (result, engine1, db1, notify status_syncing 0 0 None # events))
               (sync_resume env (engine\<lparr>isSyncing := True\<rparr>) (getUnsyncedOperations db) db)))"

text \<open>
  The single-flight guard. Between the test of \<^verbatim>\<open>isSyncing\<close> and
  \<^verbatim>\<open>this.isSyncing = true\<close> there is no \<^verbatim>\<open>await\<close>, so entering a pass is one step;
  the pass ends at \<^verbatim>\<open>this.isSyncing = false\<close>. An engine is followed through calls of
  \<^verbatim>\<open>sync\<close>, ends of passes and changes of connectivity, with the number of passes that
  have entered and not ended.
\<close>

datatype engine_event = CallSync | PassEnds | Connectivity bool

fun engine_step :: "engine_event \<Rightarrow> SyncEngine \<times> nat \<Rightarrow> SyncEngine \<times> nat" where
  "engine_step CallSync (engine, running) =
     (if \<not> isOnline engine \<or> isSyncing engine then (engine, running)
      else (engine\<lparr>isSyncing := True\<rparr>, Suc running))"
| "engine_step PassEnds (engine, running) =
     (if running = 0 then (engine, running)
      else (engine\<lparr>isSyncing := False\<rparr>, running - 1))"
| "engine_step (Connectivity b) (engine, running) = (engine\<lparr>isOnline := b\<rparr>, running)"

definition engine_run :: "bool \<Rightarrow> engine_event list \<Rightarrow> SyncEngine \<times> nat" where
  "engine_run online events =
     foldl (\<lambda>s ev. engine_step ev s) (\<lparr>isOnline = online, isSyncing = False\<rparr>, 0) events"

text \<open>
  \<^verbatim>\<open>
  public async pullFromServer(userId: string): Promise<void> {
    if (!this.isOnline) { throw new Error("Cannot pull from server while offline"); }
    try {
      const response = await fetch(`/api/sync/pull?userId=${userId}`);
      if (!response.ok) { throw new Error(`Pull failed: ${response.statusText}`); }
      const data = await response.json();
      await db.transaction("rw", [db.applications, db.contacts, db.documents], async () => {
        if (data.applications) {
          for (const app of data.applications) {
            await db.applications.put({ ...app, lastSyncedAt: new Date() });
          }
        }
        if (data.contacts) { for (const contact of data.contacts) { await db.contacts.put(contact); } }
        if (data.documents) { for (const doc of data.documents) { await db.documents.put(doc); } }
      });
    } catch (error) { console.error("Pull from server failed:", error); throw error; }
  }
  \<close>
  A transaction whose body throws is aborted: none of its writes remain. Any of the
  writes may be rejected by the storage; \<open>put_fault\<close> is the position, among the writes
  of the transaction, of the one that is.
\<close>

record pull_data =
  pulled_applications :: "Application list option"
  pulled_contacts :: "Contact list option"
  pulled_documents :: "Document list option"

datatype pull_response = PullRejected string | PullNotOk string | PullJson pull_data

record pull_env =
  pull_clock :: int
  pull_respond :: "string \<Rightarrow> pull_response"
  put_fault :: "nat option"

fun put_row :: "server_record \<Rightarrow> JobTrackerDB \<Rightarrow> JobTrackerDB" where
  "put_row (ServerApplication a) db = db\<lparr>applications := (applications db)(app_id a \<mapsto> a)\<rparr>"
| "put_row (ServerContact c) db = db\<lparr>contacts := (contacts db)(c_id c \<mapsto> c)\<rparr>"
| "put_row (ServerDocument d) db = db\<lparr>documents := (documents db)(d_id d \<mapsto> d)\<rparr>"

fun put_all :: "nat option \<Rightarrow> server_record list \<Rightarrow> JobTrackerDB \<Rightarrow> string + JobTrackerDB" where
  "put_all fault [] db = Inr db"
| "put_all fault (row # rows) db =
     (if fault = Some 0 then Inl ''QuotaExceededError''
      else put_all (map_option (\<lambda>k. k - 1) fault) rows (put_row row db))"

definition transaction ::
  "(JobTrackerDB \<Rightarrow> string + JobTrackerDB) \<Rightarrow> JobTrackerDB \<Rightarrow> (string + unit) \<times> JobTrackerDB" where
  "transaction body db =
     (case body db of Inl msg \<Rightarrow> (Inl msg, db) | Inr db1 \<Rightarrow> (Inr (), db1))"

definition rows_or_none :: "'a list option \<Rightarrow> 'a list" where
  "rows_or_none rows = (case rows of None \<Rightarrow> [] | Some rs \<Rightarrow> rs)"

definition pull_writes :: "int \<Rightarrow> pull_data \<Rightarrow> server_record list" where
  "pull_writes now d =
     map (\<lambda>app. ServerApplication (app\<lparr>lastSyncedAt := now\<rparr>))
       (rows_or_none (pulled_applications d))
     @ map ServerContact (rows_or_none (pulled_contacts d))
     @ map ServerDocument (rows_or_none (pulled_documents d))"

definition pullFromServer ::
  "pull_env \<Rightarrow> string \<Rightarrow> SyncEngine \<Rightarrow> JobTrackerDB \<Rightarrow> (string + unit) \<times> JobTrackerDB" where
  "pullFromServer env uid engine db =
     (if \<not> isOnline engine then (Inl ''Cannot pull from server while offline'', db)
      else
        (case pull_respond env uid of
           PullRejected msg \<Rightarrow> (Inl msg, db)
         | PullNotOk statusText \<Rightarrow> (Inl (''Pull failed: '' @ statusText), db)
         | PullJson d \<Rightarrow>
             transaction (put_all (put_fault env) (pull_writes (pull_clock env) d)) db))"

section \<open>Sync store and hook (lib/stores/sync-store.ts, hooks/useOfflineSync.ts)\<close>

record SyncStore =
  store_isOnline :: bool
  syncStatus :: SyncStatus
  syncProgress :: nat
  syncTotal :: nat
  syncError :: "string option"
  store_lastSyncedAt :: "int option"

text \<open>
  \<^verbatim>\<open>
  syncEngine.subscribe((state: SyncState) => {
    useSyncStore.setState({ syncStatus: state.status, syncProgress: state.progress,
      syncTotal: state.total, syncError: state.error });
  });
  \<close>
  The store is the engine's listener; events other than notifications leave it alone.
\<close>

fun listener :: "SyncStore \<Rightarrow> sync_event \<Rightarrow> SyncStore" where
  "listener st (Notify state) =
     st\<lparr>syncStatus := state_status state, syncProgress := progress state,
        syncTotal := total state, syncError := state_error state\<rparr>"
| "listener st _ = st"

text \<open>
  \<^verbatim>\<open>
  triggerSync: async () => {
    try {
      set({ syncStatus: "syncing", syncError: null });
      await syncEngine.sync();
      set({ syncStatus: "success", lastSyncedAt: new Date() });
      setTimeout(() => { set({ syncStatus: "idle" }); }, 2000);
    } catch (error) {
      set({ syncStatus: "error", syncError: errorMessage });
    }
  }
  \<close>
  The store is given as the call leaves it, before the 2 s timer resets the status.
\<close>

definition triggerSync ::
  "sync_env \<Rightarrow> SyncStore \<Rightarrow> SyncEngine \<Rightarrow> JobTrackerDB
     \<Rightarrow> (SyncStore \<times> SyncEngine \<times> JobTrackerDB \<times> sync_event list) option" where
  "triggerSync env st engine db =
     (let st1 = st\<lparr>syncStatus := status_syncing, syncError := None\<rparr>
      in case sync env engine db of
           None \<Rightarrow> None
         | Some (result, engine1, db1, events) \<Rightarrow>
             (let st2 = foldl listener st1 events
              in case result of
                   Inr _ \<Rightarrow>
                     Some (st2\<lparr>syncStatus := status_success,
                                store_lastSyncedAt := Some (sync_clock env)\<rparr>,
                           engine1, db1, events)
                 | Inl msg \<Rightarrow>
                     Some (st2\<lparr>syncStatus := status_error, syncError := Some msg\<rparr>,
                           engine1, db1, events)))"

text \<open>
  \<^verbatim>\<open>
  const manualSync = async () => {
    if (!isOnline) { throw new Error("Cannot sync while offline"); }
    await triggerSync();
  };
  \<close>
  The one manual action on the queue that the hook offers.
\<close>

definition manualSync ::
  "sync_env \<Rightarrow> SyncStore \<Rightarrow> SyncEngine \<Rightarrow> JobTrackerDB
     \<Rightarrow> ((string + unit) \<times> SyncStore \<times> SyncEngine \<times> JobTrackerDB \<times> sync_event list) option" where
  "manualSync env st engine db =
     (if \<not> store_isOnline st then Some (Inl ''Cannot sync while offline'', st, engine, db, [])
      else map_option (\<lambda>(st1, engine1, db1, events). (Inr (), st1, engine1, db1, events))
             (triggerSync env st engine db))"

text \<open>
  \<^verbatim>\<open>
  pullFromServer: async (userId: string) => {
    try {
      set({ syncStatus: "syncing", syncError: null });
      await syncEngine.pullFromServer(userId);
      set({ syncStatus: "success", lastSyncedAt: new Date() });
      setTimeout(() => { set({ syncStatus: "idle" }); }, 2000);
    } catch (error) {
      set({ syncStatus: "error", syncError: errorMessage });
    }
  }
  \<close>
\<close>

definition store_pullFromServer ::
  "pull_env \<Rightarrow> string \<Rightarrow> SyncStore \<Rightarrow> SyncEngine \<Rightarrow> JobTrackerDB
     \<Rightarrow> SyncStore \<times> JobTrackerDB" where
  "store_pullFromServer env uid st engine db =
     (let st1 = st\<lparr>syncStatus := status_syncing, syncError := None\<rparr>
      in case pullFromServer env uid engine db of
           (Inr _, db1) \<Rightarrow>
             (st1\<lparr>syncStatus := status_success, store_lastSyncedAt := Some (pull_clock env)\<rparr>,
              db1)
         | (Inl msg, db1) \<Rightarrow>
             (st1\<lparr>syncStatus := status_error, syncError := Some msg\<rparr>, db1))"

text \<open>
  The store and the database as they can be seen while the store's
  \<^verbatim>\<open>pullFromServer\<close> runs: after the first \<^verbatim>\<open>set\<close>, when the engine's
  \<^verbatim>\<open>pullFromServer\<close> has settled, and after the last \<^verbatim>\<open>set\<close>.
\<close>

definition store_pullFromServer_states ::
  "pull_env \<Rightarrow> string \<Rightarrow> SyncStore \<Rightarrow> SyncEngine \<Rightarrow> JobTrackerDB
     \<Rightarrow> (SyncStore \<times> JobTrackerDB) list" where
  "store_pullFromServer_states env uid st engine db =
     (let st1 = st\<lparr>syncStatus := status_syncing, syncError := None\<rparr>;
          (result, db1) = pullFromServer env uid engine db
      in [(st1, db), (st1, db1), store_pullFromServer env uid st engine db])"

section \<open>Server routes (app/api/sync, app/api/sync/pull, app/api/applications/[id])\<close>

text \<open>
  The server's tables as lists of rows, one row for each \<^verbatim>\<open>id\<close>; the server's
  application rows have the properties of the client's.
\<close>

record sync_log =
  log_userId :: string
  log_operation :: SyncOperationType
  log_entity :: SyncEntityType
  log_entityId :: string
  log_data :: ApplicationPatch
  log_synced :: bool

record server_db =
  srv_applications :: "Application list"
  srv_contacts :: "Contact list"
  srv_documents :: "Document list"
  srv_syncQueue :: "sync_log list"

text \<open>The body of a sync request after \<^verbatim>\<open>syncOperationSchema.parse\<close>.\<close>

record sync_request =
  req_operation :: SyncOperationType
  req_entity :: SyncEntityType
  req_entityId :: string
  req_data :: ApplicationPatch
  req_timestamp :: int

text \<open>
  The answers of the sync route: the error statuses, or status 200 with
  \<^verbatim>\<open>{ success: true, conflict, serverData: conflict ? result : undefined, result }\<close>,
  where \<^verbatim>\<open>result\<close> is an application row, \<^verbatim>\<open>{ id: entityId, deleted: true }\<close> or
  \<^verbatim>\<open>null\<close>.
\<close>

datatype sync_result = ResultRow Application | ResultDeleted string | ResultNull

datatype sync_reply =
  Status401 | Status404 | Status403 | Status500 | Status200 bool sync_result

definition reply_serverData :: "sync_reply \<Rightarrow> sync_result option" where
  "reply_serverData r =
     (case r of Status200 conflict result \<Rightarrow> if conflict then Some result else None
      | _ \<Rightarrow> None)"

definition findUnique :: "string \<Rightarrow> Application list \<Rightarrow> Application option" where
  "findUnique key rows = find (\<lambda>a. app_id a = key) rows"

definition log_request :: "string \<Rightarrow> sync_request \<Rightarrow> server_db \<Rightarrow> server_db" where
  "log_request uid req sdb =
     sdb\<lparr>srv_syncQueue := srv_syncQueue sdb @
       [\<lparr>log_userId = uid, log_operation = req_operation req, log_entity = req_entity req,
         log_entityId = req_entityId req, log_data = req_data req, log_synced = True\<rparr>]\<rparr>"

text \<open>
  \<^verbatim>\<open>prisma.application.update({ where: { id }, data })\<close>: the row with that \<^verbatim>\<open>id\<close>
  becomes the given one.
\<close>

definition replace_row :: "string \<Rightarrow> Application \<Rightarrow> server_db \<Rightarrow> server_db" where
  "replace_row key row sdb =
     sdb\<lparr>srv_applications := map (\<lambda>a. if app_id a = key then row else a) (srv_applications sdb)\<rparr>"

text \<open>
  \<^verbatim>\<open>prisma.application.create({ data })\<close> makes a row of the data. The properties that
  the type \<^verbatim>\<open>Application\<close> requires must be there; with one of them missing the call
  throws, which the handler answers with status 500. Values that the database schema may
  fill in by itself are not modelled, here and in \<^verbatim>\<open>update\<close>.
\<close>

definition complete_row :: "ApplicationPatch \<Rightarrow> Application option" where
  "complete_row p =
     (case (p_userId p, p_company p, p_position p, p_status p) of
        (Some uid, Some c, Some pos, Some st) \<Rightarrow>
          (case (p_id p, p_createdAt p, p_updatedAt p, p_lastSyncedAt p, p_version p) of
             (Some key, Some created, Some updated, Some synced_at, Some v) \<Rightarrow>
               Some \<lparr>userId = uid, company = c, position = pos, location = p_location p,
                      salaryMin = p_salaryMin p, salaryMax = p_salaryMax p, status = st,
                      applicationDate = p_applicationDate p, deadline = p_deadline p,
                      followUpDate = p_followUpDate p, url = p_url p, app_notes = p_notes p,
                      app_id = key, createdAt = created, updatedAt = updated,
                      lastSyncedAt = synced_at, version = v\<rparr>
           | _ \<Rightarrow> None)
      | _ \<Rightarrow> None)"

text \<open>
  The handler \<^verbatim>\<open>POST\<close> of the sync route:
  \<^verbatim>\<open>
  const session = await getServerSession(authOptions);
  if (!session?.user?.id) { return NextResponse.json({ error: "Unauthorized" }, { status: 401 }); }
  const body = await request.json();
  const { operation, entity, entityId, data, timestamp } = syncOperationSchema.parse(body);
  let result: any = null;
  let conflict = false;
  if (entity === "application") {
    if (operation === "CREATE") {
      // Check if application already exists (might have been synced from another device)
      const existing = await prisma.application.findUnique({ where: { id: entityId } });
      if (existing) {
        // Check for conflict
        const serverTimestamp = new Date(existing.updatedAt).getTime();
        if (serverTimestamp > timestamp) {
          conflict = true;
          result = existing;
        } else {
          // Update with client data
          result = await prisma.application.update({ where: { id: entityId },
            data: { ...data, userId: session.user.id, lastSyncedAt: new Date() } });
        }
      } else {
        // Create new
        result = await prisma.application.create({
          data: { ...data, id: entityId, userId: session.user.id, lastSyncedAt: new Date() } });
      }
    } else if (operation === "UPDATE") {
      const existing = await prisma.application.findUnique({ where: { id: entityId } });
      if (!existing) {
        return NextResponse.json({ error: "Application not found" }, { status: 404 });
      }
      // Check if user owns this application
      if (existing.userId !== session.user.id) {
        return NextResponse.json({ error: "Forbidden" }, { status: 403 });
      }
      // Check for conflict
      const serverTimestamp = new Date(existing.updatedAt).getTime();
      if (serverTimestamp > timestamp) {
        conflict = true;
        result = existing;
      } else {
        result = await prisma.application.update({
          where: { id: entityId },
          data: { ...data, lastSyncedAt: new Date(), version: existing.version + 1 },
        });
      }
    } else if (operation === "DELETE") {
      const existing = await prisma.application.findUnique({ where: { id: entityId } });
      if (existing && existing.userId === session.user.id) {
        await prisma.application.delete({ where: { id: entityId } });
        result = { id: entityId, deleted: true };
      }
    }
  }
  // Log the sync operation to sync queue table
  await prisma.syncQueue.create({ data: { userId: session.user.id, operation, entity,
    entityId, data, synced: true } });
  return NextResponse.json({ success: true, conflict,
    serverData: conflict ? result : undefined, result });
  \<close>
  \<open>session\<close> is \<^verbatim>\<open>session?.user?.id\<close>, \<open>now\<close> the server's clock, \<open>req\<close> the parsed
  body. \<open>respond_200\<close> is the end of the handler, from the log on.
\<close>

definition respond_200 ::
  "string \<Rightarrow> sync_request \<Rightarrow> bool \<Rightarrow> sync_result \<Rightarrow> server_db \<Rightarrow> sync_reply \<times> server_db" where
  "respond_200 uid req conflict result sdb = (Status200 conflict result, log_request uid req sdb)"

definition POST ::
  "string option \<Rightarrow> int \<Rightarrow> sync_request \<Rightarrow> server_db \<Rightarrow> sync_reply \<times> server_db" where
  "POST session now req sdb =
     (case session of
        None \<Rightarrow> (Status401, sdb)
      | Some uid \<Rightarrow>
          if req_entity req = application
          then
            (case req_operation req of
               CREATE \<Rightarrow>
                 (case findUnique (req_entityId req) (srv_applications sdb) of
                    Some existing \<Rightarrow>
                      (let serverTimestamp = updatedAt existing
                       in if serverTimestamp > req_timestamp req
                          then respond_200 uid req True (ResultRow existing) sdb
                          else
                            (let updated = apply_patch
                                   ((req_data req)\<lparr>p_userId := Some uid,
                                                   p_lastSyncedAt := Some now\<rparr>)
                                   existing
                             in respond_200 uid req False (ResultRow updated)
                                  (replace_row (req_entityId req) updated sdb)))
                  | None \<Rightarrow>
                      (case complete_row
                              ((req_data req)\<lparr>p_id := Some (req_entityId req),
                                              p_userId := Some uid,
                                              p_lastSyncedAt := Some now\<rparr>) of
                         None \<Rightarrow> (Status500, sdb)
                       | Some row \<Rightarrow>
                           respond_200 uid req False (ResultRow row)
                             (sdb\<lparr>srv_applications := srv_applications sdb @ [row]\<rparr>)))
             | UPDATE \<Rightarrow>
                 (case findUnique (req_entityId req) (srv_applications sdb) of
                    None \<Rightarrow> (Status404, sdb)
                  | Some existing \<Rightarrow>
                      if userId existing \<noteq> uid then (Status403, sdb)
                      else
                        (let serverTimestamp = updatedAt existing
                         in if serverTimestamp > req_timestamp req
                            then respond_200 uid req True (ResultRow existing) sdb
                            else
                              (let updated = apply_patch
                                     ((req_data req)\<lparr>p_lastSyncedAt := Some now,
                                                     p_version := Some (version existing + 1)\<rparr>)
                                     existing
                               in respond_200 uid req False (ResultRow updated)
                                    (replace_row (req_entityId req) updated sdb))))
             | DELETE \<Rightarrow>
                 (case findUnique (req_entityId req) (srv_applications sdb) of
                    None \<Rightarrow> respond_200 uid req False ResultNull sdb
                  | Some existing \<Rightarrow>
                      if userId existing = uid
                      then respond_200 uid req False (ResultDeleted (req_entityId req))
                             (sdb\<lparr>srv_applications :=
                                   filter (\<lambda>a. app_id a \<noteq> req_entityId req)
                                     (srv_applications sdb)\<rparr>)
                      else respond_200 uid req False ResultNull sdb))
          else respond_200 uid req False ResultNull sdb)"

text \<open>
  The request that \<^verbatim>\<open>processOperation\<close> sends for an operation,
  \<^verbatim>\<open>
  body: JSON.stringify({ operation: operation.type, entity: operation.entity,
    entityId: operation.entityId, data: operation.data, timestamp: operation.timestamp })
  \<close>
  and what \<^verbatim>\<open>fetch\<close> and \<^verbatim>\<open>response.json()\<close> make of the route's answer: an error
  status is a response that is not \<^verbatim>\<open>ok\<close>, with the status text; of a 200 answer the
  client reads \<^verbatim>\<open>conflict\<close> and \<^verbatim>\<open>serverData\<close>, which is there when \<^verbatim>\<open>conflict\<close> is
  true and is then the application row \<^verbatim>\<open>existing\<close>.
\<close>

definition request_of :: "SyncOperation \<Rightarrow> sync_request" where
  "request_of operation =
     \<lparr>req_operation = op_type operation, req_entity = entity operation,
      req_entityId = entityId operation, req_data = data operation,
      req_timestamp = timestamp operation\<rparr>"

definition response_of :: "sync_reply \<Rightarrow> sync_response" where
  "response_of reply =
     (case reply of
        Status401 \<Rightarrow> NotOk ''Unauthorized''
      | Status404 \<Rightarrow> NotOk ''Not Found''
      | Status403 \<Rightarrow> NotOk ''Forbidden''
      | Status500 \<Rightarrow> NotOk ''Internal Server Error''
      | Status200 conflict result \<Rightarrow>
          Json conflict
            (case reply_serverData reply of
               Some (ResultRow row) \<Rightarrow> Some (ServerApplication row)
             | _ \<Rightarrow> None))"

text \<open>
  The handler \<^verbatim>\<open>GET\<close> of the pull route:
  \<^verbatim>\<open>
  const lastSyncedAt = searchParams.get("lastSyncedAt");
  const where: any = { userId: session.user.id };
  // If lastSyncedAt is provided, only get updated items
  if (lastSyncedAt) { where.updatedAt = { gt: new Date(lastSyncedAt) }; }
  const [applications, contacts, documents] = await Promise.all([
    prisma.application.findMany({ where, orderBy: { updatedAt: "desc" } }),
    prisma.contact.findMany({ where: { application: { userId: session.user.id } } }),
    prisma.document.findMany({ where: { application: { userId: session.user.id } } }),
  ]);
  return NextResponse.json({ applications, contacts, documents,
    timestamp: new Date().toISOString() });
  \<close>
  \<open>since\<close> is the parsed \<^verbatim>\<open>lastSyncedAt\<close> parameter, \<open>None\<close> when it is absent or
  empty. \<open>None\<close> as the result is the answer 401.
\<close>

record pull_reply =
  reply_applications :: "Application list"
  reply_contacts :: "Contact list"
  reply_documents :: "Document list"
  reply_timestamp :: int

definition owned_by :: "string \<Rightarrow> Application list \<Rightarrow> string \<Rightarrow> bool" where
  "owned_by uid rows applicationId =
     list_ex (\<lambda>a. app_id a = applicationId \<and> userId a = uid) rows"

definition GET_pull :: "string option \<Rightarrow> int option \<Rightarrow> int \<Rightarrow> server_db \<Rightarrow> pull_reply option" where
  "GET_pull session since now sdb =
     (case session of
        None \<Rightarrow> None
      | Some uid \<Rightarrow>
          Some \<lparr>reply_applications =
                  sort_key (\<lambda>a. - updatedAt a)
                    (filter (\<lambda>a. userId a = uid \<and>
                                  (case since of None \<Rightarrow> True | Some t \<Rightarrow> updatedAt a > t))
                       (srv_applications sdb)),
                reply_contacts =
                  filter (\<lambda>c. owned_by uid (srv_applications sdb) (c_applicationId c))
                    (srv_contacts sdb),
                reply_documents =
                  filter (\<lambda>d. owned_by uid (srv_applications sdb) (d_applicationId d))
                    (srv_documents sdb),
                reply_timestamp = now\<rparr>)"

text \<open>
  The handler \<^verbatim>\<open>PATCH\<close> of app/api/applications/[id]/route.ts:
  \<^verbatim>\<open>
  const session = await getServerSession(authOptions);
  if (!session?.user?.id) { return NextResponse.json({ error: "Unauthorized" }, { status: 401 }); }
  const body = await request.json();
  const data = updateApplicationSchema.parse(body);
  // Check if application exists and belongs to user
  const existing = await prisma.application.findFirst({
    where: { id: params.id, userId: session.user.id } });
  if (!existing) {
    return NextResponse.json({ error: "Application not found" }, { status: 404 });
  }
  const application = await prisma.application.update({
    where: { id: params.id },
    data: { ...data,
      applicationDate: data.applicationDate ? new Date(data.applicationDate) : undefined,
      deadline: data.deadline ? new Date(data.deadline) : undefined,
      followUpDate: data.followUpDate ? new Date(data.followUpDate) : undefined,
      version: existing.version + 1 },
    include: { contacts: true, documents: true } });
  return NextResponse.json(application);
  \<close>
  The schema keeps \<^verbatim>\<open>company\<close>, \<^verbatim>\<open>position\<close> (each of at least one character),
  \<^verbatim>\<open>location\<close>, \<^verbatim>\<open>salaryMin\<close>, \<^verbatim>\<open>salaryMax\<close>, \<^verbatim>\<open>status\<close>, the three dates, \<^verbatim>\<open>url\<close>
  and \<^verbatim>\<open>notes\<close>, and drops every other property of the body; a body that does not
  parse is answered with 400.
\<close>

datatype patch_reply =
  Patch401 | Patch400 | Patch404 | Patch200 Application "Contact list" "Document list"

definition updateApplicationSchema_parse :: "ApplicationPatch \<Rightarrow> ApplicationPatch option" where
  "updateApplicationSchema_parse body =
     (if p_company body = Some [] \<or> p_position body = Some [] then None
      else Some (body\<lparr>p_userId := None, p_id := None, p_createdAt := None,
                      p_updatedAt := None, p_lastSyncedAt := None, p_version := None\<rparr>))"

definition PATCH ::
  "string option \<Rightarrow> string \<Rightarrow> ApplicationPatch \<Rightarrow> server_db \<Rightarrow> patch_reply \<times> server_db" where
  "PATCH session key body sdb =
     (case session of
        None \<Rightarrow> (Patch401, sdb)
      | Some uid \<Rightarrow>
          (case updateApplicationSchema_parse body of
             None \<Rightarrow> (Patch400, sdb)
           | Some dat \<Rightarrow>
               (case find (\<lambda>a. app_id a = key \<and> userId a = uid) (srv_applications sdb) of
                  None \<Rightarrow> (Patch404, sdb)
                | Some existing \<Rightarrow>
                    (let updated = apply_patch (dat\<lparr>p_version := Some (version existing + 1)\<rparr>)
                                     existing
                     in (Patch200 updated
                           (filter (\<lambda>c. c_applicationId c = key) (srv_contacts sdb))
                           (filter (\<lambda>d. d_applicationId d = key) (srv_documents sdb)),
                         sdb\<lparr>srv_applications :=
                               map (\<lambda>a. if app_id a = key then updated else a)
                                 (srv_applications sdb)\<rparr>)))))"

section \<open>Reading a pass\<close>

text \<open>The operations for which a list of events has a request sent, and the timers set.\<close>

fun fetched_of :: "sync_event \<Rightarrow> SyncOperation list" where
  "fetched_of (Fetch operation) = [operation]"
| "fetched_of (Settled operation r) = []"
| "fetched_of (Notify state) = []"
| "fetched_of (SetTimeout delay) = []"

definition fetched :: "sync_event list \<Rightarrow> SyncOperation list" where
  "fetched events = concat (map fetched_of events)"

fun timer_of :: "sync_event \<Rightarrow> nat list" where
  "timer_of (SetTimeout delay) = [delay]"
| "timer_of (Fetch operation) = []"
| "timer_of (Settled operation r) = []"
| "timer_of (Notify state) = []"

definition timers :: "sync_event list \<Rightarrow> nat list" where
  "timers events = concat (map timer_of events)"

text \<open>
  The traffic with the endpoint in a list of events: a request sent for an operation,
  the promise of an operation settled.
\<close>

datatype traffic = Sent SyncOperation | Done SyncOperation

fun traffic_of :: "sync_event \<Rightarrow> traffic list" where
  "traffic_of (Fetch operation) = [Sent operation]"
| "traffic_of (Settled operation r) = [Done operation]"
| "traffic_of (Notify state) = []"
| "traffic_of (SetTimeout delay) = []"

definition traffic :: "sync_event list \<Rightarrow> traffic list" where
  "traffic events = concat (map traffic_of events)"

definition events_of ::
  "((string + unit) \<times> SyncEngine \<times> JobTrackerDB \<times> sync_event list) option \<Rightarrow> sync_event list" where
  "events_of r = (case r of None \<Rightarrow> [] | Some (_, _, _, events) \<Rightarrow> events)"

text \<open>
  The message of the error that the \<^verbatim>\<open>try\<close> block of \<^verbatim>\<open>processOperation\<close> throws on
  an answer, if it throws.
\<close>

fun thrown :: "sync_response \<Rightarrow> string option" where
  "thrown (FetchRejected msg) = Some msg"
| "thrown (NotOk statusText) = Some (''Sync failed: '' @ statusText)"
| "thrown (Json conflict None) =
     (if conflict then Some ''Cannot read properties of undefined'' else None)"
| "thrown (Json conflict (Some serverData)) = None"

text \<open>How a call of \<^verbatim>\<open>sync\<close> ended: fulfilled, or rejected with a message.\<close>

definition result_of ::
  "((string + unit) \<times> SyncEngine \<times> JobTrackerDB \<times> sync_event list) option
     \<Rightarrow> (string + unit) option" where
  "result_of r = map_option fst r"

section \<open>Example values\<close>

text \<open>
  Rows of the queue: two updates of the same application, an operation that has failed
  four times and one that has failed five times. A local and a server version of an
  application. The surroundings of a pass: an endpoint that accepts every operation, the
  sync route itself over given server tables, and an endpoint that cannot be reached.
\<close>

definition opA :: SyncOperation where
  "opA = \<lparr>op_id = ''op-a'', op_type = UPDATE, entity = application, entityId = ''app-1'',
     data = empty_patch\<lparr>p_status := Some APPLIED\<rparr>, timestamp = 100, synced = False,
     retryCount = 0, error = None\<rparr>"

definition opB :: SyncOperation where
  "opB = \<lparr>op_id = ''op-b'', op_type = UPDATE, entity = application, entityId = ''app-1'',
     data = empty_patch\<lparr>p_status := Some INTERVIEW\<rparr>, timestamp = 200, synced = False,
     retryCount = 0, error = None\<rparr>"

definition accepting_env :: sync_env where
  "accepting_env = \<lparr>sync_clock = 1000, respond = (\<lambda>operation. Json False None),
     latency = (\<lambda>operation. 0), queue_read_fault = None\<rparr>"

definition idle_engine :: SyncEngine where
  "idle_engine = \<lparr>isOnline = True, isSyncing = False\<rparr>"

definition queue_db :: "SyncOperation list \<Rightarrow> JobTrackerDB" where
  "queue_db queue = \<lparr>applications = Map.empty, contacts = Map.empty, documents = Map.empty,
     syncQueue = queue\<rparr>"

definition opX :: SyncOperation where
  "opX = \<lparr>op_id = ''op-x'', op_type = UPDATE, entity = application, entityId = ''app-2'',
     data = empty_patch\<lparr>p_status := Some OFFER\<rparr>, timestamp = 50, synced = False,
     retryCount = 5, error = Some ''Failed to fetch''\<rparr>"

definition op4 :: SyncOperation where
  "op4 = \<lparr>op_id = ''op-4'', op_type = UPDATE, entity = application, entityId = ''app-2'',
     data = empty_patch\<lparr>p_status := Some OFFER\<rparr>, timestamp = 50, synced = False,
     retryCount = 4, error = Some ''Failed to fetch''\<rparr>"

definition online_store :: SyncStore where
  "online_store = \<lparr>store_isOnline = True, syncStatus = status_idle, syncProgress = 0,
     syncTotal = 0, syncError = None, store_lastSyncedAt = None\<rparr>"

definition local_row :: Application where
  "local_row = \<lparr>userId = ''user-1'', company = ''Acme'', position = ''Engineer'',
     location = None, salaryMin = None, salaryMax = None, status = APPLIED,
     applicationDate = None, deadline = None, followUpDate = None, url = None,
     app_notes = None, app_id = ''app-1'', createdAt = 10, updatedAt = 100,
     lastSyncedAt = 10, version = 3\<rparr>"

definition server_row :: Application where
  "server_row = local_row\<lparr>status := SCREENING, updatedAt := 150, version := 4\<rparr>"

definition endpoint_env :: "server_db \<Rightarrow> sync_env" where
  "endpoint_env sdb = \<lparr>sync_clock = 1000,
     respond = (\<lambda>operation.
        response_of (fst (POST (Some ''user-1'') 1000 (request_of operation) sdb))),
     latency = (\<lambda>operation. 0), queue_read_fault = None\<rparr>"

definition failing_env :: sync_env where
  "failing_env = \<lparr>sync_clock = 1000, respond = (\<lambda>operation. FetchRejected ''Failed to fetch''),
     latency = (\<lambda>operation. 0), queue_read_fault = None\<rparr>"

definition example_db :: JobTrackerDB where
  "example_db = \<lparr>applications = [''app-1'' \<mapsto> local_row], contacts = Map.empty,
     documents = Map.empty, syncQueue = [opB]\<rparr>"

definition busy_engine :: SyncEngine where
  "busy_engine = \<lparr>isOnline = True, isSyncing = True\<rparr>"

definition offline_engine :: SyncEngine where
  "offline_engine = \<lparr>isOnline = False, isSyncing = False\<rparr>"


text \<open>
  For the store: the data of a new application, an empty store, and the surroundings of
  a mutation, once with a storage that takes every write and once with one that rejects
  the write to the sync queue. For the server: its tables with the server version of the
  application and one contact of it, an update request whose payload has the server's
  version and an older timestamp, and one whose payload has an older version and a newer
  timestamp. For a pull: an endpoint that answers with the server's rows, once with
  every write taken and once with the second write rejected.
\<close>

definition example_data :: ApplicationData where
  "example_data = \<lparr>userId = ''user-1'', company = ''Initech'', position = ''Analyst'',
     location = None, salaryMin = None, salaryMax = None, status = WISHLIST,
     applicationDate = None, deadline = None, followUpDate = None, url = None,
     app_notes = None\<rparr>"

definition empty_store :: ApplicationStore where
  "empty_store = \<lparr>store_applications = [], selectedApplication = None, isLoading = False,
     store_error = None\<rparr>"

definition quota_env :: mutation_env where
  "quota_env = \<lparr>uuid = ''app-9'', clock = 500, op_uuid = ''op-9'', op_clock = 501,
     op_place = 0, record_fault = None, queue_fault = Some ''QuotaExceededError''\<rparr>"

definition healthy_env :: mutation_env where
  "healthy_env = \<lparr>uuid = ''app-9'', clock = 500, op_uuid = ''op-9'', op_clock = 501,
     op_place = 0, record_fault = None, queue_fault = None\<rparr>"

definition old_contact :: Contact where
  "old_contact = \<lparr>c_id = ''contact-1'', c_applicationId = ''app-1'', c_name = ''Kim'',
     c_email = None, c_phone = None, c_role = None, c_notes = None, c_createdAt = 20,
     c_updatedAt = 50\<rparr>"

definition example_server :: server_db where
  "example_server = \<lparr>srv_applications = [server_row], srv_contacts = [old_contact],
     srv_documents = [], srv_syncQueue = []\<rparr>"

definition req_equal :: sync_request where
  "req_equal = \<lparr>req_operation = UPDATE, req_entity = application, req_entityId = ''app-1'',
     req_data = empty_patch\<lparr>p_status := Some OFFER, p_version := Some 4\<rparr>,
     req_timestamp = 120\<rparr>"

definition req_stale :: sync_request where
  "req_stale = \<lparr>req_operation = UPDATE, req_entity = application, req_entityId = ''app-1'',
     req_data = empty_patch\<lparr>p_status := Some OFFER, p_version := Some 2\<rparr>,
     req_timestamp = 200\<rparr>"

definition pulling_env :: pull_env where
  "pulling_env = \<lparr>pull_clock = 2000,
     pull_respond = (\<lambda>uid. PullJson \<lparr>pulled_applications = Some [server_row],
        pulled_contacts = Some [old_contact], pulled_documents = None\<rparr>),
     put_fault = None\<rparr>"

definition breaking_env :: pull_env where
  "breaking_env = pulling_env\<lparr>put_fault := Some 1\<rparr>"

text \<open>
  A queue filled by the store: a new application is added, then its status is changed.
\<close>

definition second_env :: mutation_env where
  "second_env = \<lparr>uuid = ''app-10'', clock = 600, op_uuid = ''op-10'', op_clock = 601,
     op_place = 1, record_fault = None, queue_fault = None\<rparr>"

definition enqueued_db :: JobTrackerDB where
  "enqueued_db =
     snd (snd (changeStatus second_env ''app-9'' INTERVIEW
       (fst (snd (addApplication healthy_env example_data empty_store (queue_db []))))
       (snd (snd (addApplication healthy_env example_data empty_store (queue_db []))))))"

section \<open>Properties of batching\<close>

lemma createBatches_loop_returns:
  "0 < batchSize \<Longrightarrow>
   \<exists>bs. createBatches_loop items batchSize i batches = Some (batches @ bs)
      \<and> concat bs = drop i items
      \<and> (\<forall>b \<in> set bs. b \<noteq> [] \<and> length b \<le> batchSize)"
proof (induction "length items - i" arbitrary: i batches rule: less_induct)
  case less
  show ?case
  proof (cases "i < length items")
    case False
    then show ?thesis
      by (subst createBatches_loop.simps) simp
  next
    case True
    let ?b = "slice items i (i + batchSize)"
    from True less.prems have "length items - (i + batchSize) < length items - i"
      by arith
    from less.hyps [OF this less.prems, of "batches @ [?b]"]
    obtain bs where
      run: "createBatches_loop items batchSize (i + batchSize) (batches @ [?b])
              = Some ((batches @ [?b]) @ bs)"
      and cat: "concat bs = drop (i + batchSize) items"
      and bound: "\<forall>b \<in> set bs. b \<noteq> [] \<and> length b \<le> batchSize"
      by blast
    have step: "createBatches_loop items batchSize i batches = Some (batches @ (?b # bs))"
      using True run by (subst createBatches_loop.simps) simp
    have "?b @ drop (i + batchSize) items = drop i items"
      by (simp add: slice_def add.commute [of i batchSize] flip: drop_drop)
    then have cat': "concat (?b # bs) = drop i items"
      using cat by simp
    have "?b \<noteq> [] \<and> length ?b \<le> batchSize"
      using True less.prems by (simp add: slice_def)
    then have "\<forall>b \<in> set (?b # bs). b \<noteq> [] \<and> length b \<le> batchSize"
      using bound by simp
    with step cat' show ?thesis by blast
  qed
qed

text \<open>
  C9. The selected operations are grouped into consecutive batches of at most 50
  operations each; putting the batches one after the other gives back the selected list;
  51 operations give two batches, of 50 and of 1.
\<close>

theorem createBatches_chunks:
  "\<exists>bs. createBatches ops MAX_BATCH_SIZE = Some bs
      \<and> concat bs = ops
      \<and> (\<forall>b \<in> set bs. length b \<le> 50)
      \<and> (length ops = 51 \<longrightarrow> map length bs = [50, 1])"
proof -
  from createBatches_loop_returns [of MAX_BATCH_SIZE ops 0 "[]"]
  obtain bs where run: "createBatches ops MAX_BATCH_SIZE = Some bs"
    and cat: "concat bs = ops"
    and bound: "\<forall>b \<in> set bs. length b \<le> 50"
    by (auto simp: createBatches_def MAX_BATCH_SIZE_def)
  have fifty_one: "map length bs = [50, 1]" if len: "length ops = 51"
  proof -
    have "createBatches ops MAX_BATCH_SIZE = Some [slice ops 0 50, slice ops 50 100]"
      unfolding createBatches_def MAX_BATCH_SIZE_def
      by (subst createBatches_loop.simps, simp add: len,
          subst createBatches_loop.simps, simp add: len,
          subst createBatches_loop.simps, simp add: len)
    with run have "bs = [slice ops 0 50, slice ops 50 100]" by simp
    then show ?thesis by (simp add: slice_def len)
  qed
  show ?thesis
    using run cat bound fifty_one by (intro exI [of _ bs]) simp
qed

theorem createBatches_chunks_witness:
  "\<exists>bs. createBatches [0..<51] MAX_BATCH_SIZE = Some bs
      \<and> concat bs = [0..<51]
      \<and> (\<forall>b \<in> set bs. length b \<le> 50)
      \<and> map length bs = [50, 1]"
  using createBatches_chunks [of "[0..<51]"] by simp

lemma createBatches_returns:
  "\<exists>bs. createBatches items MAX_BATCH_SIZE = Some bs \<and> concat bs = items
      \<and> (\<forall>b \<in> set bs. b \<noteq> [] \<and> length b \<le> MAX_BATCH_SIZE)"
  using createBatches_loop_returns [of MAX_BATCH_SIZE items 0 "[]"]
  by (simp add: createBatches_def MAX_BATCH_SIZE_def)

section \<open>The requests of a pass\<close>

lemma traffic_simps [simp]:
  "traffic [] = []"
  "traffic (e # es) = traffic_of e @ traffic es"
  "traffic (xs @ ys) = traffic xs @ traffic ys"
  by (simp_all add: traffic_def)

lemma fetched_simps [simp]:
  "fetched [] = []"
  "fetched (e # es) = fetched_of e @ fetched es"
  "fetched (xs @ ys) = fetched xs @ fetched ys"
  by (simp_all add: fetched_def)

lemma traffic_map_Fetch [simp]: "traffic (map Fetch ops) = map Sent ops"
  by (induction ops) simp_all

lemma traffic_notify [simp]: "traffic_of (notify s p t e) = []"
  by (simp add: notify_def)

lemma traffic_catch [simp]:
  "traffic (snd (processOperation_catch operation msg db)) = [Done operation]"
  by (simp add: processOperation_catch_def Let_def)

lemma traffic_resume [simp]:
  "traffic (snd (processOperation_resume env operation db)) = [Done operation]"
  by (simp add: processOperation_resume_def split: sync_response.splits option.splits)

lemma traffic_resume_all [simp]:
  "traffic (snd (resume_all env ops db)) = map Done ops"
  by (induction ops arbitrary: db) (simp_all add: split_beta Let_def)

lemma traffic_processBatch [simp]:
  "traffic (snd (processBatch env batch db))
     = map Sent batch @ map Done (sort_key (latency env) batch)"
  by (simp add: processBatch_def split_beta)

lemma traffic_sync_loop [simp]:
  "traffic (snd (sync_loop env n completed batches db))
     = concat (map (\<lambda>batch. map Sent batch @ map Done (sort_key (latency env) batch)) batches)"
  by (induction batches arbitrary: completed db) (simp_all add: split_beta Let_def)

lemma fetched_map_Fetch [simp]: "fetched (map Fetch ops) = ops"
  by (induction ops) simp_all

lemma fetched_notify [simp]: "fetched_of (notify s p t e) = []"
  by (simp add: notify_def)

lemma fetched_catch [simp]:
  "fetched (snd (processOperation_catch operation msg db)) = []"
  by (simp add: processOperation_catch_def Let_def)

lemma fetched_resume [simp]:
  "fetched (snd (processOperation_resume env operation db)) = []"
  by (simp add: processOperation_resume_def split: sync_response.splits option.splits)

lemma fetched_resume_all [simp]:
  "fetched (snd (resume_all env ops db)) = []"
  by (induction ops arbitrary: db) (simp_all add: split_beta Let_def)

lemma fetched_processBatch [simp]:
  "fetched (snd (processBatch env batch db)) = batch"
  by (simp add: processBatch_def split_beta)

lemma fetched_sync_loop [simp]:
  "fetched (snd (sync_loop env n completed batches db)) = concat batches"
  by (induction batches arbitrary: completed db) (simp_all add: split_beta Let_def)

text \<open>The pass from the answer of the query on, for the batches that it forms.\<close>

lemma sync_resume_runs:
  assumes "createBatches (filter (\<lambda>op. retryCount op < MAX_RETRY_COUNT) operations)
             MAX_BATCH_SIZE = Some batches"
    and "concat batches = filter (\<lambda>op. retryCount op < MAX_RETRY_COUNT) operations"
  shows "\<exists>events. sync_resume env engine operations db
          = Some (Inr (), engine\<lparr>isSyncing := False\<rparr>,
                  fst (sync_loop env
                         (length (filter (\<lambda>op. retryCount op < MAX_RETRY_COUNT) operations))
                         0 batches db),
                  events)
      \<and> traffic events
          = concat (map (\<lambda>batch. map Sent batch @ map Done (sort_key (latency env) batch))
                      batches)
      \<and> fetched events = filter (\<lambda>op. retryCount op < MAX_RETRY_COUNT) operations"
proof -
  define valid where "valid = filter (\<lambda>op. retryCount op < MAX_RETRY_COUNT) operations"
  note b = assms [folded valid_def]
  show ?thesis
    unfolding valid_def [symmetric]
  proof (cases "valid = []")
    case True
    with b(1) have "batches = []"
      unfolding createBatches_def by (subst (asm) createBatches_loop.simps) simp
    then have "concat (map (\<lambda>batch. map Sent batch @ map Done (sort_key (latency env) batch))
                 batches) = []"
      and "fst (sync_loop env (length valid) 0 batches db) = db"
      by simp_all
    then show "\<exists>events. sync_resume env engine operations db
          = Some (Inr (), engine\<lparr>isSyncing := False\<rparr>,
                  fst (sync_loop env (length valid) 0 batches db), events)
      \<and> traffic events
          = concat (map (\<lambda>batch. map Sent batch @ map Done (sort_key (latency env) batch))
                      batches)
      \<and> fetched events = valid"
      using True by (simp add: sync_resume_def valid_def [symmetric])
  next
    case False
    obtain db1 events where loop: "sync_loop env (length valid) 0 batches db = (db1, events)"
      by (cases "sync_loop env (length valid) 0 batches db")
    have "traffic events
        = concat (map (\<lambda>batch. map Sent batch @ map Done (sort_key (latency env) batch))
                    batches)"
      using traffic_sync_loop [of env "length valid" 0 batches db] loop by simp
    moreover have "fetched events = valid"
      using fetched_sync_loop [of env "length valid" 0 batches db] loop b(2) by simp
    moreover have "sync_resume env engine operations db
        = Some (Inr (), engine\<lparr>isSyncing := False\<rparr>, db1,
                events @ [notify status_success (length valid) (length valid) None])"
      using False b(1) loop by (simp add: sync_resume_def valid_def [symmetric] Let_def)
    ultimately show "\<exists>events. sync_resume env engine operations db
          = Some (Inr (), engine\<lparr>isSyncing := False\<rparr>,
                  fst (sync_loop env (length valid) 0 batches db), events)
      \<and> traffic events
          = concat (map (\<lambda>batch. map Sent batch @ map Done (sort_key (latency env) batch))
                      batches)
      \<and> fetched events = valid"
      using loop by simp
  qed
qed

text \<open>The query of the queue finds no row, and what a call of \<^verbatim>\<open>sync\<close> comes to.\<close>

lemma getUnsyncedOperations_none [simp]: "getUnsyncedOperations db = []"
  by (simp add: getUnsyncedOperations_def boolean_key_def)

lemma sync_run:
  "sync env engine db =
     Some (if \<not> isOnline engine \<or> isSyncing engine then (Inr (), engine, db, [])
           else case queue_read_fault env of
                  Some msg \<Rightarrow>
                    (Inl msg, engine\<lparr>isSyncing := False\<rparr>, db,
                     [notify status_syncing 0 0 None, notify status_error 0 0 (Some msg)])
                | None \<Rightarrow>
                    (Inr (), engine\<lparr>isSyncing := False\<rparr>, db,
                     [notify status_syncing 0 0 None, notify status_success 0 0 None]))"
  by (simp add: sync_def sync_resume_def split: option.splits)

lemma enqueued_rows:
  "syncQueue enqueued_db =
     [\<lparr>op_id = ''op-9'', op_type = CREATE, entity = application, entityId = ''app-9'',
        data = patch_of (new_application healthy_env example_data), timestamp = 501,
        synced = False, retryCount = 0, error = None\<rparr>,
      \<lparr>op_id = ''op-10'', op_type = UPDATE, entity = application, entityId = ''app-9'',
        data = patch_of (apply_patch (updatedData second_env (empty_patch\<lparr>p_status := Some INTERVIEW\<rparr>))
                 (new_application healthy_env example_data)),
        timestamp = 601, synced = False, retryCount = 0, error = None\<rparr>]"
  by (simp add: enqueued_db_def changeStatus_def updateApplication_def addApplication_def
      applications_table_add_def applications_table_update_def addToSyncQueue_def
      healthy_env_def second_env_def queue_db_def Let_def new_application_def)




section \<open>Operations that have failed 5 times\<close>

lemma syncQueue_resolveConflict [simp]:
  "syncQueue (resolveConflict now operation sd db) = syncQueue db"
  by (simp add: resolveConflict_def Let_def split: SyncEntityType.splits server_record.splits)

lemma ids_table_update:
  "(\<And>op. op_id (f op) = op_id op) \<Longrightarrow>
   map op_id (syncQueue (syncQueue_table_update key f db)) = map op_id (syncQueue db)"
  by (simp add: syncQueue_table_update_def comp_def cong: map_cong)

lemma keep_table_update:
  "op \<in> set (syncQueue db) \<Longrightarrow> op_id op \<noteq> key \<Longrightarrow>
   op \<in> set (syncQueue (syncQueue_table_update key f db))"
  by (force simp: syncQueue_table_update_def)

lemma ids_markOperationSynced [simp]:
  "map op_id (syncQueue (markOperationSynced key db)) = map op_id (syncQueue db)"
  by (simp add: markOperationSynced_def ids_table_update)

lemma ids_incrementRetryCount [simp]:
  "map op_id (syncQueue (incrementRetryCount key msg db)) = map op_id (syncQueue db)"
  by (simp add: incrementRetryCount_def ids_table_update split: option.splits)

lemma keep_markOperationSynced:
  "op \<in> set (syncQueue db) \<Longrightarrow> op_id op \<noteq> key \<Longrightarrow>
   op \<in> set (syncQueue (markOperationSynced key db))"
  by (simp add: markOperationSynced_def keep_table_update)

lemma keep_incrementRetryCount:
  "op \<in> set (syncQueue db) \<Longrightarrow> op_id op \<noteq> key \<Longrightarrow>
   op \<in> set (syncQueue (incrementRetryCount key msg db))"
  by (simp add: incrementRetryCount_def keep_table_update split: option.splits)

lemma ids_resume [simp]:
  "map op_id (syncQueue (fst (processOperation_resume env operation db)))
     = map op_id (syncQueue db)"
  by (simp add: processOperation_resume_def processOperation_catch_def Let_def
      split: sync_response.splits option.splits)

lemma keep_resume:
  assumes "op \<in> set (syncQueue db)" "op_id op \<noteq> op_id operation"
  shows "op \<in> set (syncQueue (fst (processOperation_resume env operation db)))"
proof -
  have "op \<in> set (syncQueue (resolveConflict now operation sd db))" for now sd
    using assms(1) by simp
  with assms show ?thesis
    by (simp add: processOperation_resume_def processOperation_catch_def Let_def
        keep_markOperationSynced keep_incrementRetryCount
        split: sync_response.splits option.splits)
qed

lemma ids_resume_all [simp]:
  "map op_id (syncQueue (fst (resume_all env ops db))) = map op_id (syncQueue db)"
proof (induction ops arbitrary: db)
  case Nil
  show ?case by simp
next
  case (Cons operation rest)
  have "map op_id (syncQueue (fst (resume_all env rest
          (fst (processOperation_resume env operation db)))))
        = map op_id (syncQueue (fst (processOperation_resume env operation db)))"
    by (rule Cons.IH)
  then show ?case by (simp add: split_beta Let_def)
qed

lemma keep_resume_all:
  "op \<in> set (syncQueue db) \<Longrightarrow> \<forall>operation \<in> set ops. op_id op \<noteq> op_id operation \<Longrightarrow>
   op \<in> set (syncQueue (fst (resume_all env ops db)))"
proof (induction ops arbitrary: db)
  case Nil
  then show ?case by simp
next
  case (Cons operation rest)
  from Cons.prems have "op \<in> set (syncQueue (fst (processOperation_resume env operation db)))"
    by (simp add: keep_resume)
  with Cons.prems
  have "op \<in> set (syncQueue (fst (resume_all env rest
          (fst (processOperation_resume env operation db)))))"
    by (intro Cons.IH) simp_all
  then show ?case by (simp add: split_beta Let_def)
qed

lemma ids_processBatch [simp]:
  "map op_id (syncQueue (fst (processBatch env batch db))) = map op_id (syncQueue db)"
  by (simp add: processBatch_def split_beta)

lemma keep_processBatch:
  "op \<in> set (syncQueue db) \<Longrightarrow> \<forall>operation \<in> set batch. op_id op \<noteq> op_id operation \<Longrightarrow>
   op \<in> set (syncQueue (fst (processBatch env batch db)))"
  by (simp add: processBatch_def split_beta keep_resume_all)

lemma ids_sync_loop [simp]:
  "map op_id (syncQueue (fst (sync_loop env n completed batches db))) = map op_id (syncQueue db)"
proof (induction batches arbitrary: completed db)
  case Nil
  show ?case by simp
next
  case (Cons batch rest)
  have "map op_id (syncQueue (fst (sync_loop env n (completed + length batch) rest
          (fst (processBatch env batch db)))))
        = map op_id (syncQueue (fst (processBatch env batch db)))"
    by (rule Cons.IH)
  then show ?case by (simp add: split_beta Let_def)
qed

lemma keep_sync_loop:
  "op \<in> set (syncQueue db) \<Longrightarrow>
   \<forall>operation \<in> set (concat batches). op_id op \<noteq> op_id operation \<Longrightarrow>
   op \<in> set (syncQueue (fst (sync_loop env n completed batches db)))"
proof (induction batches arbitrary: completed db)
  case Nil
  then show ?case by simp
next
  case (Cons batch rest)
  from Cons.prems have "op \<in> set (syncQueue (fst (processBatch env batch db)))"
    by (simp add: keep_processBatch)
  with Cons.prems
  have "op \<in> set (syncQueue (fst (sync_loop env n (completed + length batch) rest
          (fst (processBatch env batch db)))))"
    by (intro Cons.IH) simp_all
  then show ?case by (simp add: split_beta Let_def)
qed

text \<open>
  C5, as amended. An operation of the queue whose \<^verbatim>\<open>retryCount\<close> has reached 5 is not
  sent by a pass, whatever the engine's state and the endpoint's answers: whichever
  rows of the queue the query returns to the pass, the filter
  \<^verbatim>\<open>op.retryCount < MAX_RETRY_COUNT\<close> leaves the operation out. The pass leaves its row
  as it is: still in the queue, with the same \<^verbatim>\<open>synced\<close> flag, \<^verbatim>\<open>retryCount\<close> and
  \<^verbatim>\<open>error\<close>, so the same holds for the pass after. (The code has no state property,
  and no action that sets \<^verbatim>\<open>retryCount\<close> back to 0.)
\<close>

theorem exhausted_operation_left_alone:
  assumes "op \<in> set (syncQueue db)"
    and "MAX_RETRY_COUNT \<le> retryCount op"
    and "distinct (map op_id (syncQueue db))"
    and "set operations \<subseteq> set (syncQueue db)"
  shows "(\<exists>result engine1 db1 events.
            sync_resume env engine operations db = Some (result, engine1, db1, events)
            \<and> op \<notin> set (fetched events)
            \<and> op \<in> set (syncQueue db1)
            \<and> distinct (map op_id (syncQueue db1)))
       \<and> (\<exists>result engine1 db1 events.
            sync env engine db = Some (result, engine1, db1, events)
            \<and> op \<notin> set (fetched events)
            \<and> op \<in> set (syncQueue db1)
            \<and> distinct (map op_id (syncQueue db1)))"
proof
  define valid where "valid = filter (\<lambda>op. retryCount op < MAX_RETRY_COUNT) operations"
  from createBatches_returns [of valid]
  obtain batches where b: "createBatches valid MAX_BATCH_SIZE = Some batches"
    "concat batches = valid"
    by blast
  from sync_resume_runs [OF b [unfolded valid_def], of env engine db]
  obtain events where run: "sync_resume env engine operations db
          = Some (Inr (), engine\<lparr>isSyncing := False\<rparr>,
                  fst (sync_loop env (length valid) 0 batches db), events)"
    and sent: "fetched events = valid"
    unfolding valid_def by blast
  have not_valid: "op \<notin> set valid"
    using assms(2) by (simp add: valid_def)
  have other: "op_id op \<noteq> op_id operation" if "operation \<in> set valid" for operation
  proof -
    from that assms(4) have "operation \<in> set (syncQueue db)"
      by (auto simp: valid_def)
    moreover from that not_valid have "operation \<noteq> op" by blast
    ultimately show ?thesis
      using assms(1,3) by (metis distinct_map inj_on_def)
  qed
  have "op \<in> set (syncQueue (fst (sync_loop env (length valid) 0 batches db)))"
    using assms(1) other b(2) by (intro keep_sync_loop) auto
  moreover have "distinct (map op_id (syncQueue (fst (sync_loop env (length valid) 0 batches db))))"
    using assms(3) by simp
  ultimately show "\<exists>result engine1 db1 events.
            sync_resume env engine operations db = Some (result, engine1, db1, events)
            \<and> op \<notin> set (fetched events)
            \<and> op \<in> set (syncQueue db1)
            \<and> distinct (map op_id (syncQueue db1))"
    using run sent not_valid by simp
next
  show "\<exists>result engine1 db1 events.
            sync env engine db = Some (result, engine1, db1, events)
            \<and> op \<notin> set (fetched events)
            \<and> op \<in> set (syncQueue db1)
            \<and> distinct (map op_id (syncQueue db1))"
    using assms(1,3) by (simp add: sync_run split: option.splits)
qed

theorem exhausted_operation_left_alone_witness:
  "(\<exists>result engine1 db1 events.
      sync_resume accepting_env idle_engine [opX, opB] (queue_db [opX, opB])
        = Some (result, engine1, db1, events)
      \<and> opX \<notin> set (fetched events)
      \<and> opX \<in> set (syncQueue db1)
      \<and> distinct (map op_id (syncQueue db1)))
   \<and> (\<exists>result engine1 db1 events.
      sync accepting_env idle_engine (queue_db [opX, opB]) = Some (result, engine1, db1, events)
      \<and> opX \<notin> set (fetched events)
      \<and> opX \<in> set (syncQueue db1)
      \<and> distinct (map op_id (syncQueue db1)))"
proof -
  have row: "opX \<in> set (syncQueue (queue_db [opX, opB]))"
    by (simp add: queue_db_def)
  have spent: "MAX_RETRY_COUNT \<le> retryCount opX"
    by (simp add: opX_def MAX_RETRY_COUNT_def)
  have ids: "distinct (map op_id (syncQueue (queue_db [opX, opB])))"
    by (simp add: queue_db_def opX_def opB_def)
  have rows: "set [opX, opB] \<subseteq> set (syncQueue (queue_db [opX, opB]))"
    by (simp add: queue_db_def)
  show ?thesis
    by (rule exhausted_operation_left_alone [OF row spent ids rows])
qed

text \<open>
  Against C5 as stated: \<^verbatim>\<open>manualSync\<close>, the manual action of the hook, on a queue
  whose one operation has failed 5 times sends nothing and leaves \<^verbatim>\<open>retryCount\<close> at 5.
\<close>

theorem manualSync_keeps_retryCount:
  "retryCount opX = 5 \<and> \<not> synced opX
   \<and> manualSync accepting_env online_store idle_engine (queue_db [opX])
       = Some (Inr (),
           online_store\<lparr>syncStatus := status_success, store_lastSyncedAt := Some 1000\<rparr>,
           idle_engine, queue_db [opX],
           [notify status_syncing 0 0 None, notify status_success 0 0 None])"
  by (simp add: manualSync_def triggerSync_def sync_run online_store_def idle_engine_def
      accepting_env_def opX_def notify_def)


section \<open>Conflicts\<close>

lemma marked_rows_synced:
  "list_all (\<lambda>op. op_id op = key \<longrightarrow> synced op)
     (map (\<lambda>op. if op_id op = key then op\<lparr>synced := True\<rparr> else op) queue)"
  by (induction queue) simp_all

lemma markOperationSynced_synced:
  "list_all (\<lambda>op. op_id op = key \<longrightarrow> synced op) (syncQueue (markOperationSynced key db))"
  by (simp add: markOperationSynced_def syncQueue_table_update_def marked_rows_synced)

text \<open>
  What the client does with a conflict answer that carries an application row, whichever
  of the two timestamps is the greater.
\<close>

lemma processOperation_conflict:
  assumes "respond env operation = Json True (Some (ServerApplication row))"
    and "entity operation = application"
  shows "processOperation env operation db
       = (markOperationSynced (op_id operation)
            (if timestamp operation < updatedAt row
             then db\<lparr>applications :=
                       (applications db)(app_id row \<mapsto> row\<lparr>lastSyncedAt := sync_clock env\<rparr>)\<rparr>
             else db),
          [Fetch operation, Settled operation None])"
  using assms
  by (simp add: processOperation_def processOperation_resume_def resolveConflict_def Let_def)

text \<open>When the sync route answers with a conflict.\<close>

lemma POST_conflict:
  assumes "fst (POST session now req sdb) = Status200 True result"
  shows "\<exists>existing. result = ResultRow existing
      \<and> req_entity req = application
      \<and> findUnique (req_entityId req) (srv_applications sdb) = Some existing
      \<and> req_timestamp req < updatedAt existing"
  using assms
  by (auto simp: POST_def respond_200_def Let_def
      split: option.splits SyncOperationType.splits if_splits)

lemma response_of_conflict:
  assumes "response_of reply = Json True serverData"
  shows "\<exists>result. reply = Status200 True result
      \<and> serverData = (case result of ResultRow row \<Rightarrow> Some (ServerApplication row) | _ \<Rightarrow> None)"
  using assms
  by (cases reply) (auto simp: response_of_def reply_serverData_def split: sync_result.splits)



section \<open>Retries\<close>

lemma timers_simps [simp]:
  "timers [] = []"
  "timers (e # es) = timer_of e @ timers es"
  "timers (xs @ ys) = timers xs @ timers ys"
  by (simp_all add: timers_def)

lemma resume_thrown:
  "thrown (respond env operation) = Some m \<Longrightarrow>
   processOperation_resume env operation db = processOperation_catch operation m db"
  by (cases "respond env operation" rule: thrown.cases)
     (auto simp: processOperation_resume_def split: if_splits)

lemma find_updated_row:
  "(\<And>op. op_id (f op) = op_id op) \<Longrightarrow>
   find (\<lambda>op. op_id op = key) (map (\<lambda>op. if op_id op = key then f op else op) queue)
     = map_option f (find (\<lambda>op. op_id op = key) queue)"
  by (induction queue) simp_all

lemma get_incrementRetryCount:
  "syncQueue_table_get key db = Some row \<Longrightarrow>
   syncQueue_table_get key (incrementRetryCount key msg db)
     = Some (row\<lparr>retryCount := retryCount row + 1, error := Some msg\<rparr>)"
  by (simp add: incrementRetryCount_def syncQueue_table_get_def syncQueue_table_update_def
      find_updated_row)

text \<open>
  C6, as amended. When the handling of an operation fails for the k-th time in a row
  (its row in the queue then has \<^verbatim>\<open>retryCount\<close> k - 1), the failure is counted in the
  row, and for k = 1, 2, 3, 4 one retry timer is set, with the delay 1 s, 2 s, 4 s, 8 s,
  which is \<^verbatim>\<open>RETRY_DELAYS[min(retryCount, 4)]\<close> for the count before the failure; from the
  5th failure on no timer is set.
\<close>

theorem retry_delay_after_failure:
  assumes "thrown (respond env operation) = Some m"
    and "syncQueue_table_get (op_id operation) db = Some operation"
    and "retryCount operation + 1 = k"
  shows "timers (snd (processOperation env operation db))
       = (if k = 1 then [1000] else if k = 2 then [2000] else if k = 3 then [4000]
          else if k = 4 then [8000] else [])
     \<and> timers (snd (processOperation env operation db))
       = (if k < MAX_RETRY_COUNT
          then [RETRY_DELAYS ! min (retryCount operation) (length RETRY_DELAYS - 1)] else [])
     \<and> syncQueue_table_get (op_id operation) (fst (processOperation env operation db))
       = Some (operation\<lparr>retryCount := k, error := Some m\<rparr>)"
proof -
  have run: "processOperation env operation db
      = (incrementRetryCount (op_id operation) m db,
         Fetch operation #
         (if retryCount operation + 1 < MAX_RETRY_COUNT
          then [SetTimeout (RETRY_DELAYS ! min (retryCount operation) (length RETRY_DELAYS - 1))]
          else [])
         @ [Settled operation (Some m)])"
    by (simp add: processOperation_def resume_thrown [OF assms(1)] processOperation_catch_def
        Let_def)
  have count: "retryCount operation = k - 1" and pos: "0 < k"
    using assms(3) by simp_all
  have "k = 1 \<or> k = 2 \<or> k = 3 \<or> k = 4 \<or> 5 \<le> k"
    using pos by arith
  then have delays: "timers (snd (processOperation env operation db))
       = (if k = 1 then [1000] else if k = 2 then [2000] else if k = 3 then [4000]
          else if k = 4 then [8000] else [])"
    unfolding run count
    by (elim disjE) (simp_all add: MAX_RETRY_COUNT_def RETRY_DELAYS_def)
  have formula: "timers (snd (processOperation env operation db))
       = (if k < MAX_RETRY_COUNT
          then [RETRY_DELAYS ! min (retryCount operation) (length RETRY_DELAYS - 1)] else [])"
    unfolding run using assms(3) by auto
  have stored: "syncQueue_table_get (op_id operation) (fst (processOperation env operation db))
       = Some (operation\<lparr>retryCount := k, error := Some m\<rparr>)"
    unfolding run using get_incrementRetryCount [OF assms(2), of m] assms(3) by simp
  from delays formula stored show ?thesis by blast
qed

theorem retry_delay_after_failure_witness:
  "timers (snd (processOperation failing_env opA (queue_db [opA]))) = [1000]
     \<and> timers (snd (processOperation failing_env opA (queue_db [opA])))
       = [RETRY_DELAYS ! min (retryCount opA) (length RETRY_DELAYS - 1)]
     \<and> syncQueue_table_get (op_id opA) (fst (processOperation failing_env opA (queue_db [opA])))
       = Some (opA\<lparr>retryCount := 1, error := Some ''Failed to fetch''\<rparr>)"
proof -
  have fails: "thrown (respond failing_env opA) = Some ''Failed to fetch''"
    by (simp add: failing_env_def)
  have row: "syncQueue_table_get (op_id opA) (queue_db [opA]) = Some opA"
    by (simp add: syncQueue_table_get_def queue_db_def)
  have first: "retryCount opA + 1 = 1"
    by (simp add: opA_def)
  have under: "(1::nat) < MAX_RETRY_COUNT"
    by (simp add: MAX_RETRY_COUNT_def)
  show ?thesis
    by (rule retry_delay_after_failure
          [OF fails row first, unfolded if_P [OF under] if_P [OF refl]])
qed

text \<open>
  Against C6 as stated: at the fifth failure the delay computed is 16 s, and no timer
  is set.
\<close>

theorem fifth_failure_sets_no_timer:
  "retryCount op4 + 1 = 5
   \<and> RETRY_DELAYS ! min (retryCount op4) (length RETRY_DELAYS - 1) = 16000
   \<and> snd (processOperation failing_env op4 (queue_db [op4]))
       = [Fetch op4, Settled op4 (Some ''Failed to fetch'')]
   \<and> timers (snd (processOperation failing_env op4 (queue_db [op4]))) = []"
  by (simp add: processOperation_def processOperation_resume_def processOperation_catch_def
      failing_env_def op4_def RETRY_DELAYS_def MAX_RETRY_COUNT_def Let_def)

section \<open>The single-flight guard\<close>

lemma engine_run_invariant:
  "(isSyncing (fst (engine_run online events)) \<and> snd (engine_run online events) = 1)
   \<or> (\<not> isSyncing (fst (engine_run online events)) \<and> snd (engine_run online events) = 0)"
proof (induction events rule: rev_induct)
  case Nil
  show ?case by (simp add: engine_run_def)
next
  case (snoc ev events)
  obtain engine running where s: "engine_run online events = (engine, running)"
    by (cases "engine_run online events")
  have step: "engine_run online (events @ [ev]) = engine_step ev (engine, running)"
    using s by (simp add: engine_run_def)
  from snoc s have "(isSyncing engine \<and> running = 1) \<or> (\<not> isSyncing engine \<and> running = 0)"
    by simp
  then show ?case
    unfolding step by (cases ev) auto
qed

text \<open>
  C4, as amended. A call of \<^verbatim>\<open>sync\<close> while a pass is running, or while the engine is
  not online, returns normally, without an error: it sends nothing and changes neither
  the engine nor the database. Through any sequence of calls, ends of passes and
  changes of connectivity, at most one pass is running.
\<close>

theorem sync_single_flight:
  "(\<not> isOnline engine \<or> isSyncing engine \<longrightarrow> sync env engine db = Some (Inr (), engine, db, []))
   \<and> snd (engine_run online events) \<le> 1"
proof -
  have "snd (engine_run online events) \<le> 1"
    using engine_run_invariant [of online events] by auto
  then show ?thesis
    by (simp add: sync_def)
qed

theorem sync_single_flight_witness:
  "sync accepting_env busy_engine (queue_db [opA]) = Some (Inr (), busy_engine, queue_db [opA], [])
   \<and> sync accepting_env offline_engine (queue_db [opA])
       = Some (Inr (), offline_engine, queue_db [opA], [])
   \<and> snd (engine_run True [CallSync, CallSync, PassEnds, CallSync]) \<le> 1"
proof -
  have busy: "\<not> isOnline busy_engine \<or> isSyncing busy_engine"
    by (simp add: busy_engine_def)
  have offline: "\<not> isOnline offline_engine \<or> isSyncing offline_engine"
    by (simp add: offline_engine_def)
  from sync_single_flight [of busy_engine accepting_env "queue_db [opA]" True
      "[CallSync, CallSync, PassEnds, CallSync]"]
    sync_single_flight [of offline_engine accepting_env "queue_db [opA]" True "[]"]
    busy offline
  show ?thesis by blast
qed

text \<open>
  Against C4 as stated: the call made during a pass and the call made offline are both
  fulfilled, not rejected.
\<close>

theorem declined_sync_is_fulfilled:
  "result_of (sync accepting_env busy_engine (queue_db [opA])) = Some (Inr ())
   \<and> result_of (sync accepting_env offline_engine (queue_db [opA])) = Some (Inr ())"
  by (simp add: result_of_def sync_def busy_engine_def offline_engine_def)

section \<open>Local mutations\<close>

text \<open>
  C8 fails on the code. The write to the applications table and the write to the sync
  queue are two steps, and nothing undoes the first when the second is rejected: with a
  storage that rejects the write to the queue, \<^verbatim>\<open>addApplication\<close> throws and leaves the
  new application in its table with no operation queued for it, and likewise
  \<^verbatim>\<open>updateApplication\<close> leaves the update and \<^verbatim>\<open>deleteApplication\<close> the deletion.
\<close>

theorem record_written_without_operation:
  "fst (addApplication quota_env example_data empty_store (queue_db []))
     = Inl ''QuotaExceededError''
   \<and> applications (snd (snd (addApplication quota_env example_data empty_store (queue_db []))))
       ''app-9'' = Some (new_application quota_env example_data)
   \<and> syncQueue (snd (snd (addApplication quota_env example_data empty_store (queue_db [])))) = []
   \<and> fst (updateApplication quota_env ''app-1'' (empty_patch\<lparr>p_status := Some OFFER\<rparr>)
          empty_store example_db) = Inl ''QuotaExceededError''
   \<and> map_option status
         (applications (snd (snd (updateApplication quota_env ''app-1''
            (empty_patch\<lparr>p_status := Some OFFER\<rparr>) empty_store example_db))) ''app-1'')
       = Some OFFER
   \<and> syncQueue (snd (snd (updateApplication quota_env ''app-1''
          (empty_patch\<lparr>p_status := Some OFFER\<rparr>) empty_store example_db))) = [opB]
   \<and> fst (deleteApplication quota_env ''app-1'' empty_store example_db)
       = Inl ''QuotaExceededError''
   \<and> applications (snd (snd (deleteApplication quota_env ''app-1'' empty_store example_db)))
       ''app-1'' = None
   \<and> syncQueue (snd (snd (deleteApplication quota_env ''app-1'' empty_store example_db)))
       = [opB]"
  by (simp add: addApplication_def updateApplication_def deleteApplication_def
      applications_table_add_def applications_table_update_def applications_table_delete_def
      addToSyncQueue_def quota_env_def queue_db_def example_db_def Let_def
      apply_patch_def override_def updatedData_def empty_patch_def local_row_def
      new_application_def)

lemma version_apply_patch [simp]:
  "version (apply_patch p a) = override (p_version p) (version a)"
  by (simp add: apply_patch_def)

lemma updateApplication_row:
  assumes "applications db key = Some app" and "record_fault env = None"
  shows "applications (snd (snd (updateApplication env key updates st db))) key
       = Some (apply_patch (updatedData env updates) app)"
  using assms
  by (simp add: updateApplication_def applications_table_update_def addToSyncQueue_def Let_def
      split: option.splits sum.splits prod.splits)

text \<open>
  C10, as amended. When \<^verbatim>\<open>updateApplication\<close> is called for a stored application and
  the storage takes the write, the stored version afterwards is one more than the
  version of the updates, where an absent version and also the version 0 count as 1;
  the version stored before plays no part. In particular \<^verbatim>\<open>changeStatus\<close>, whose
  updates have no version, leaves the version 2.
\<close>

theorem updateApplication_version:
  assumes "applications db key = Some app" and "record_fault env = None"
  shows "map_option version
           (applications (snd (snd (updateApplication env key updates st db))) key)
       = Some ((case p_version updates of None \<Rightarrow> 1 | Some v \<Rightarrow> if v = 0 then 1 else v) + 1)
     \<and> map_option version
           (applications (snd (snd (changeStatus env key s st db))) key) = Some 2"
  by (simp add: changeStatus_def updateApplication_row [OF assms] updatedData_def
      version_or_1_def override_def empty_patch_def)

theorem updateApplication_version_witness:
  "map_option version
     (applications (snd (snd (updateApplication healthy_env ''app-1''
        (empty_patch\<lparr>p_version := Some 7\<rparr>) empty_store example_db))) ''app-1'') = Some 8
   \<and> map_option version
     (applications (snd (snd (changeStatus healthy_env ''app-1'' OFFER empty_store example_db)))
        ''app-1'') = Some 2"
proof -
  have row: "applications example_db ''app-1'' = Some local_row"
    by (simp add: example_db_def)
  have ok: "record_fault healthy_env = None"
    by (simp add: healthy_env_def)
  have seven: "p_version (empty_patch\<lparr>p_version := Some 7\<rparr>) = Some 7"
    by simp
  have "(case Some (7::int) of None \<Rightarrow> 1 | Some v \<Rightarrow> if v = 0 then 1 else v) + 1 = 8"
    by simp
  with updateApplication_version [OF row ok, of "empty_patch\<lparr>p_version := Some 7\<rparr>" empty_store
      OFFER]
  show ?thesis unfolding seven by simp
qed

text \<open>
  Against C10 as stated: updates that carry the version 0 leave the version 2, not
  0 + 1.
\<close>

theorem version_zero_gives_two:
  "p_version (empty_patch\<lparr>p_version := Some 0\<rparr>) = Some 0
   \<and> map_option version
     (applications (snd (snd (updateApplication healthy_env ''app-1''
        (empty_patch\<lparr>p_version := Some 0\<rparr>) empty_store example_db))) ''app-1'') = Some 2"
proof -
  have row: "applications example_db ''app-1'' = Some local_row"
    by (simp add: example_db_def)
  have ok: "record_fault healthy_env = None"
    by (simp add: healthy_env_def)
  show ?thesis
    by (simp add: updateApplication_row [OF row ok] updatedData_def version_or_1_def
        override_def)
qed

section \<open>The update of the sync route\<close>

lemma find_Some_member: "find P xs = Some x \<Longrightarrow> x \<in> set xs \<and> P x"
  by (induction xs) (auto split: if_splits)

text \<open>
  C2, as amended. For an UPDATE of an existing application by its owner, the endpoint
  compares timestamps, not versions. When the stored \<^verbatim>\<open>updatedAt\<close> is strictly greater
  than the request's \<^verbatim>\<open>timestamp\<close>, it answers with a conflict that carries the whole
  stored row, and leaves the table of applications as it is. Otherwise it applies the
  update: every property that the payload has replaces the stored one, every other
  property stays, \<^verbatim>\<open>lastSyncedAt\<close> becomes the server's time, and the version becomes
  the stored version plus one, whatever version the payload carries; the row with the
  request's \<^verbatim>\<open>entityId\<close> becomes that row and the other rows stay; the answer carries
  the new row and reports no conflict.
\<close>

theorem update_decided_by_timestamp:
  assumes "req_operation req = UPDATE" and "req_entity req = application"
    and "findUnique (req_entityId req) (srv_applications sdb) = Some existing"
    and "userId existing = uid"
  shows "(req_timestamp req < updatedAt existing \<longrightarrow>
            fst (POST (Some uid) now req sdb) = Status200 True (ResultRow existing)
            \<and> reply_serverData (fst (POST (Some uid) now req sdb)) = Some (ResultRow existing)
            \<and> srv_applications (snd (POST (Some uid) now req sdb)) = srv_applications sdb)
     \<and> (updatedAt existing \<le> req_timestamp req \<longrightarrow>
            (\<exists>updated.
               updated = \<lparr>userId = (case p_userId (req_data req) of None \<Rightarrow> userId existing | Some v \<Rightarrow> v),
                   company = (case p_company (req_data req) of None \<Rightarrow> company existing | Some v \<Rightarrow> v),
                   position = (case p_position (req_data req) of None \<Rightarrow> position existing | Some v \<Rightarrow> v),
                   location = (case p_location (req_data req) of None \<Rightarrow> location existing | Some v \<Rightarrow> Some v),
                   salaryMin = (case p_salaryMin (req_data req) of None \<Rightarrow> salaryMin existing | Some v \<Rightarrow> Some v),
                   salaryMax = (case p_salaryMax (req_data req) of None \<Rightarrow> salaryMax existing | Some v \<Rightarrow> Some v),
                   status = (case p_status (req_data req) of None \<Rightarrow> status existing | Some v \<Rightarrow> v),
                   applicationDate = (case p_applicationDate (req_data req) of
                                        None \<Rightarrow> applicationDate existing | Some v \<Rightarrow> Some v),
                   deadline = (case p_deadline (req_data req) of None \<Rightarrow> deadline existing | Some v \<Rightarrow> Some v),
                   followUpDate = (case p_followUpDate (req_data req) of
                                     None \<Rightarrow> followUpDate existing | Some v \<Rightarrow> Some v),
                   url = (case p_url (req_data req) of None \<Rightarrow> url existing | Some v \<Rightarrow> Some v),
                   app_notes = (case p_notes (req_data req) of None \<Rightarrow> app_notes existing | Some v \<Rightarrow> Some v),
                   app_id = (case p_id (req_data req) of None \<Rightarrow> app_id existing | Some v \<Rightarrow> v),
                   createdAt = (case p_createdAt (req_data req) of None \<Rightarrow> createdAt existing | Some v \<Rightarrow> v),
                   updatedAt = (case p_updatedAt (req_data req) of None \<Rightarrow> updatedAt existing | Some v \<Rightarrow> v),
                   lastSyncedAt = now,
                   version = version existing + 1\<rparr>
               \<and> fst (POST (Some uid) now req sdb) = Status200 False (ResultRow updated)
               \<and> reply_serverData (fst (POST (Some uid) now req sdb)) = None
               \<and> srv_applications (snd (POST (Some uid) now req sdb))
                   = map (\<lambda>a. if app_id a = req_entityId req then updated else a)
                       (srv_applications sdb)
               \<and> updated \<in> set (srv_applications (snd (POST (Some uid) now req sdb)))
               \<and> version updated = version existing + 1))"
proof -
  from assms(3) have mem: "existing \<in> set (srv_applications sdb)"
    and key: "app_id existing = req_entityId req"
    using find_Some_member [of "\<lambda>a. app_id a = req_entityId req" "srv_applications sdb" existing]
    by (simp_all add: findUnique_def)
  define updated where "updated = \<lparr>userId = (case p_userId (req_data req) of None \<Rightarrow> userId existing | Some v \<Rightarrow> v),
                   company = (case p_company (req_data req) of None \<Rightarrow> company existing | Some v \<Rightarrow> v),
                   position = (case p_position (req_data req) of None \<Rightarrow> position existing | Some v \<Rightarrow> v),
                   location = (case p_location (req_data req) of None \<Rightarrow> location existing | Some v \<Rightarrow> Some v),
                   salaryMin = (case p_salaryMin (req_data req) of None \<Rightarrow> salaryMin existing | Some v \<Rightarrow> Some v),
                   salaryMax = (case p_salaryMax (req_data req) of None \<Rightarrow> salaryMax existing | Some v \<Rightarrow> Some v),
                   status = (case p_status (req_data req) of None \<Rightarrow> status existing | Some v \<Rightarrow> v),
                   applicationDate = (case p_applicationDate (req_data req) of
                                        None \<Rightarrow> applicationDate existing | Some v \<Rightarrow> Some v),
                   deadline = (case p_deadline (req_data req) of None \<Rightarrow> deadline existing | Some v \<Rightarrow> Some v),
                   followUpDate = (case p_followUpDate (req_data req) of
                                     None \<Rightarrow> followUpDate existing | Some v \<Rightarrow> Some v),
                   url = (case p_url (req_data req) of None \<Rightarrow> url existing | Some v \<Rightarrow> Some v),
                   app_notes = (case p_notes (req_data req) of None \<Rightarrow> app_notes existing | Some v \<Rightarrow> Some v),
                   app_id = (case p_id (req_data req) of None \<Rightarrow> app_id existing | Some v \<Rightarrow> v),
                   createdAt = (case p_createdAt (req_data req) of None \<Rightarrow> createdAt existing | Some v \<Rightarrow> v),
                   updatedAt = (case p_updatedAt (req_data req) of None \<Rightarrow> updatedAt existing | Some v \<Rightarrow> v),
                   lastSyncedAt = now,
                   version = version existing + 1\<rparr>"
  have applied: "apply_patch ((req_data req)\<lparr>p_lastSyncedAt := Some now,
                     p_version := Some (version existing + 1)\<rparr>) existing = updated"
    by (simp add: updated_def apply_patch_def override_def override_opt_def)
  have "updated \<in> (\<lambda>a. if app_id a = req_entityId req then updated else a)
                     ` set (srv_applications sdb)"
    using mem key by (intro image_eqI [of _ _ existing]) simp_all
  moreover have "version updated = version existing + 1"
    by (simp add: updated_def)
  ultimately have late: "updatedAt existing \<le> req_timestamp req \<longrightarrow>
            (\<exists>u. u = updated
               \<and> fst (POST (Some uid) now req sdb) = Status200 False (ResultRow u)
               \<and> reply_serverData (fst (POST (Some uid) now req sdb)) = None
               \<and> srv_applications (snd (POST (Some uid) now req sdb))
                   = map (\<lambda>a. if app_id a = req_entityId req then u else a)
                       (srv_applications sdb)
               \<and> u \<in> set (srv_applications (snd (POST (Some uid) now req sdb)))
               \<and> version u = version existing + 1)"
    using assms applied
    by (simp add: POST_def respond_200_def replace_row_def reply_serverData_def
        log_request_def Let_def)
  have early: "req_timestamp req < updatedAt existing \<longrightarrow>
            fst (POST (Some uid) now req sdb) = Status200 True (ResultRow existing)
            \<and> reply_serverData (fst (POST (Some uid) now req sdb)) = Some (ResultRow existing)
            \<and> srv_applications (snd (POST (Some uid) now req sdb)) = srv_applications sdb"
    using assms
    by (simp add: POST_def respond_200_def reply_serverData_def log_request_def Let_def)
  from early late show ?thesis
    unfolding updated_def by blast
qed

theorem update_decided_by_timestamp_witness:
  "fst (POST (Some ''user-1'') 1000 req_equal example_server)
     = Status200 True (ResultRow server_row)
   \<and> reply_serverData (fst (POST (Some ''user-1'') 1000 req_equal example_server))
       = Some (ResultRow server_row)
   \<and> srv_applications (snd (POST (Some ''user-1'') 1000 req_equal example_server))
       = srv_applications example_server
   \<and> (\<exists>updated. fst (POST (Some ''user-1'') 1000 req_stale example_server)
                   = Status200 False (ResultRow updated)
        \<and> status updated = OFFER
        \<and> company updated = company server_row
        \<and> lastSyncedAt updated = 1000
        \<and> version updated = version server_row + 1
        \<and> srv_applications (snd (POST (Some ''user-1'') 1000 req_stale example_server))
            = [updated])"
proof -
  have found: "findUnique (req_entityId req_equal) (srv_applications example_server)
      = Some server_row"
    "findUnique (req_entityId req_stale) (srv_applications example_server) = Some server_row"
    by (simp_all add: findUnique_def req_equal_def req_stale_def example_server_def
        server_row_def local_row_def)
  have owner: "userId server_row = ''user-1''"
    by (simp add: server_row_def local_row_def)
  have update: "req_operation req_equal = UPDATE" "req_entity req_equal = application"
    "req_operation req_stale = UPDATE" "req_entity req_stale = application"
    by (simp_all add: req_equal_def req_stale_def)
  have older: "req_timestamp req_equal < updatedAt server_row"
    by (simp add: req_equal_def server_row_def)
  have newer: "updatedAt server_row \<le> req_timestamp req_stale"
    by (simp add: req_stale_def server_row_def)
  have payload: "p_status (req_data req_stale) = Some OFFER"
    "p_company (req_data req_stale) = None"
    by (simp_all add: req_stale_def empty_patch_def)
  have rows: "srv_applications example_server = [server_row]"
    "app_id server_row = req_entityId req_stale"
    by (simp_all add: example_server_def server_row_def local_row_def req_stale_def)
  from update_decided_by_timestamp [OF update(1,2) found(1) owner, of 1000] older
  have first: "fst (POST (Some ''user-1'') 1000 req_equal example_server)
     = Status200 True (ResultRow server_row)
   \<and> reply_serverData (fst (POST (Some ''user-1'') 1000 req_equal example_server))
       = Some (ResultRow server_row)
   \<and> srv_applications (snd (POST (Some ''user-1'') 1000 req_equal example_server))
       = srv_applications example_server"
    by blast
  from update_decided_by_timestamp [OF update(3,4) found(2) owner, of 1000] newer
  obtain updated where u: "updated = \<lparr>userId = (case p_userId (req_data req_stale) of None \<Rightarrow> userId server_row | Some v \<Rightarrow> v),
                   company = (case p_company (req_data req_stale) of None \<Rightarrow> company server_row | Some v \<Rightarrow> v),
                   position = (case p_position (req_data req_stale) of None \<Rightarrow> position server_row | Some v \<Rightarrow> v),
                   location = (case p_location (req_data req_stale) of None \<Rightarrow> location server_row | Some v \<Rightarrow> Some v),
                   salaryMin = (case p_salaryMin (req_data req_stale) of None \<Rightarrow> salaryMin server_row | Some v \<Rightarrow> Some v),
                   salaryMax = (case p_salaryMax (req_data req_stale) of None \<Rightarrow> salaryMax server_row | Some v \<Rightarrow> Some v),
                   status = (case p_status (req_data req_stale) of None \<Rightarrow> status server_row | Some v \<Rightarrow> v),
                   applicationDate = (case p_applicationDate (req_data req_stale) of
                                        None \<Rightarrow> applicationDate server_row | Some v \<Rightarrow> Some v),
                   deadline = (case p_deadline (req_data req_stale) of None \<Rightarrow> deadline server_row | Some v \<Rightarrow> Some v),
                   followUpDate = (case p_followUpDate (req_data req_stale) of
                                     None \<Rightarrow> followUpDate server_row | Some v \<Rightarrow> Some v),
                   url = (case p_url (req_data req_stale) of None \<Rightarrow> url server_row | Some v \<Rightarrow> Some v),
                   app_notes = (case p_notes (req_data req_stale) of None \<Rightarrow> app_notes server_row | Some v \<Rightarrow> Some v),
                   app_id = (case p_id (req_data req_stale) of None \<Rightarrow> app_id server_row | Some v \<Rightarrow> v),
                   createdAt = (case p_createdAt (req_data req_stale) of None \<Rightarrow> createdAt server_row | Some v \<Rightarrow> v),
                   updatedAt = (case p_updatedAt (req_data req_stale) of None \<Rightarrow> updatedAt server_row | Some v \<Rightarrow> v),
                   lastSyncedAt = 1000,
                   version = version server_row + 1\<rparr>"
    "fst (POST (Some ''user-1'') 1000 req_stale example_server)
       = Status200 False (ResultRow updated)"
    "srv_applications (snd (POST (Some ''user-1'') 1000 req_stale example_server))
       = map (\<lambda>a. if app_id a = req_entityId req_stale then updated else a)
           (srv_applications example_server)"
    "version updated = version server_row + 1"
    by blast
  have "status updated = OFFER" "company updated = company server_row"
    "lastSyncedAt updated = 1000"
    unfolding u(1) by (simp_all add: payload)
  moreover have "srv_applications (snd (POST (Some ''user-1'') 1000 req_stale example_server))
      = [updated]"
    unfolding u(3) by (simp add: rows)
  ultimately show ?thesis
    using first u(2,4) by blast
qed

text \<open>
  Against C2 as stated: the stored row has version 4. A request whose payload has
  version 4 and an older timestamp is answered with a conflict; a request whose payload
  has version 2 and a newer timestamp is applied.
\<close>

theorem update_ignores_versions:
  "version server_row = 4
   \<and> p_version (req_data req_equal) = Some 4
   \<and> fst (POST (Some ''user-1'') 1000 req_equal example_server)
       = Status200 True (ResultRow server_row)
   \<and> p_version (req_data req_stale) = Some 2
   \<and> fst (POST (Some ''user-1'') 1000 req_stale example_server)
       = Status200 False
           (ResultRow (server_row\<lparr>status := OFFER, lastSyncedAt := 1000, version := 5\<rparr>))"
  by (simp add: POST_def respond_200_def findUnique_def req_equal_def req_stale_def
      example_server_def server_row_def local_row_def apply_patch_def override_def
      override_opt_def empty_patch_def Let_def)

text \<open>The route of one application applies every valid update and adds one to the version.\<close>

lemma PATCH_increments_version:
  assumes "updateApplicationSchema_parse body = Some dat"
    and "find (\<lambda>a. app_id a = key \<and> userId a = uid) (srv_applications sdb) = Some existing"
  shows "\<exists>updated contacts documents.
           fst (PATCH (Some uid) key body sdb) = Patch200 updated contacts documents
           \<and> version updated = version existing + 1"
  using assms by (simp add: PATCH_def Let_def apply_patch_def override_def)

section \<open>Pull\<close>

lemma put_all_done:
  "put_all fault rows db = Inr db1 \<Longrightarrow> db1 = fold put_row rows db"
  by (induction rows arbitrary: fault db) (auto split: if_splits)

lemma set_sort_key_filter:
  "set (sort_key f (filter P xs)) = {x \<in> set xs. P x}"
  by auto

lemma pullFromServer_fulfilled:
  assumes "fst (pullFromServer env uid engine db) = Inr ()"
  shows "\<exists>d. pull_respond env uid = PullJson d
      \<and> snd (pullFromServer env uid engine db) = fold put_row (pull_writes (pull_clock env) d) db"
  using assms
  by (auto simp: pullFromServer_def transaction_def dest: put_all_done
      split: if_splits pull_response.splits sum.splits)

lemma pullFromServer_rejected:
  assumes "fst (pullFromServer env uid engine db) \<noteq> Inr ()"
  shows "snd (pullFromServer env uid engine db) = db"
  using assms
  by (auto simp: pullFromServer_def transaction_def
      split: if_splits pull_response.splits sum.splits)

text \<open>The writes of a transaction all succeed when none of them is the rejected one.\<close>

lemma put_all_fulfilled:
  "(\<exists>db1. put_all fault rows db = Inr db1)
     = (case fault of None \<Rightarrow> True | Some k \<Rightarrow> length rows \<le> k)"
proof (induction rows arbitrary: fault db)
  case Nil
  show ?case by (simp split: option.splits)
next
  case (Cons row rows)
  show ?case
  proof (cases fault)
    case None
    with Cons.IH [of None "put_row row db"] show ?thesis by simp
  next
    case (Some k)
    show ?thesis
    proof (cases k)
      case 0
      with Some show ?thesis by simp
    next
      case (Suc j)
      with Some Cons.IH [of "Some j" "put_row row db"] show ?thesis by simp
    qed
  qed
qed

lemma length_pull_writes:
  "length (pull_writes now d)
     = length (case pulled_applications d of None \<Rightarrow> [] | Some rows \<Rightarrow> rows)
       + length (case pulled_contacts d of None \<Rightarrow> [] | Some rows \<Rightarrow> rows)
       + length (case pulled_documents d of None \<Rightarrow> [] | Some rows \<Rightarrow> rows)"
  by (simp add: pull_writes_def rows_or_none_def)

lemma pullFromServer_fulfilled_iff:
  "(fst (pullFromServer env uid engine db) = Inr ())
     = (isOnline engine
        \<and> (\<exists>d. pull_respond env uid = PullJson d
              \<and> (case put_fault env of
                    None \<Rightarrow> True
                  | Some k \<Rightarrow>
                      length (case pulled_applications d of None \<Rightarrow> [] | Some rows \<Rightarrow> rows)
                      + length (case pulled_contacts d of None \<Rightarrow> [] | Some rows \<Rightarrow> rows)
                      + length (case pulled_documents d of None \<Rightarrow> [] | Some rows \<Rightarrow> rows)
                      \<le> k)))"
proof (cases "isOnline engine")
  case False
  then show ?thesis by (simp add: pullFromServer_def)
next
  case True
  show ?thesis
  proof (cases "pull_respond env uid")
    case (PullJson d)
    have "(fst (transaction (put_all (put_fault env) (pull_writes (pull_clock env) d)) db) = Inr ())
        = (\<exists>db1. put_all (put_fault env) (pull_writes (pull_clock env) d) db = Inr db1)"
      by (cases "put_all (put_fault env) (pull_writes (pull_clock env) d) db")
        (simp_all add: transaction_def)
    with True PullJson show ?thesis
      by (simp add: pullFromServer_def put_all_fulfilled length_pull_writes
          cong: option.case_cong)
  qed (use True in \<open>simp_all add: pullFromServer_def\<close>)
qed

text \<open>
  The tables after a run of writes: under each key stands the last row written with that
  key, and what was there before under the keys of no written row.
\<close>

lemma written_applications:
  "applications (fold put_row (map (\<lambda>a. ServerApplication (a\<lparr>lastSyncedAt := now\<rparr>)) rows) db) k
     = (case find (\<lambda>a. app_id a = k) (rev rows) of
          None \<Rightarrow> applications db k
        | Some a \<Rightarrow> Some (a\<lparr>lastSyncedAt := now\<rparr>))"
  "contacts (fold put_row (map (\<lambda>a. ServerApplication (a\<lparr>lastSyncedAt := now\<rparr>)) rows) db)
     = contacts db"
  "documents (fold put_row (map (\<lambda>a. ServerApplication (a\<lparr>lastSyncedAt := now\<rparr>)) rows) db)
     = documents db"
  "syncQueue (fold put_row (map (\<lambda>a. ServerApplication (a\<lparr>lastSyncedAt := now\<rparr>)) rows) db)
     = syncQueue db"
  by (induction rows rule: rev_induct) auto

lemma written_contacts:
  "contacts (fold put_row (map ServerContact rows) db) k
     = (case find (\<lambda>c. c_id c = k) (rev rows) of None \<Rightarrow> contacts db k | Some c \<Rightarrow> Some c)"
  "applications (fold put_row (map ServerContact rows) db) = applications db"
  "documents (fold put_row (map ServerContact rows) db) = documents db"
  "syncQueue (fold put_row (map ServerContact rows) db) = syncQueue db"
  by (induction rows rule: rev_induct) auto

lemma written_documents:
  "documents (fold put_row (map ServerDocument rows) db) k
     = (case find (\<lambda>d. d_id d = k) (rev rows) of None \<Rightarrow> documents db k | Some d \<Rightarrow> Some d)"
  "applications (fold put_row (map ServerDocument rows) db) = applications db"
  "contacts (fold put_row (map ServerDocument rows) db) = contacts db"
  "syncQueue (fold put_row (map ServerDocument rows) db) = syncQueue db"
  by (induction rows rule: rev_induct) auto

lemma written_pull:
  fixes d :: pull_data and db :: JobTrackerDB and now :: int
  defines "db1 \<equiv> fold put_row (pull_writes now d) db"
  shows "applications db1 k
     = (case find (\<lambda>a. app_id a = k)
               (rev (case pulled_applications d of None \<Rightarrow> [] | Some rows \<Rightarrow> rows)) of
          None \<Rightarrow> applications db k
        | Some a \<Rightarrow> Some (a\<lparr>lastSyncedAt := now\<rparr>))"
  and "contacts db1 k
     = (case find (\<lambda>c. c_id c = k)
               (rev (case pulled_contacts d of None \<Rightarrow> [] | Some rows \<Rightarrow> rows)) of
          None \<Rightarrow> contacts db k
        | Some c \<Rightarrow> Some c)"
  and "documents db1 k
     = (case find (\<lambda>d. d_id d = k)
               (rev (case pulled_documents d of None \<Rightarrow> [] | Some rows \<Rightarrow> rows)) of
          None \<Rightarrow> documents db k
        | Some d \<Rightarrow> Some d)"
  and "syncQueue db1 = syncQueue db"
  unfolding db1_def pull_writes_def rows_or_none_def fold_append comp_def
  by (simp_all add: written_applications written_contacts written_documents
      cong: option.case_cong)

text \<open>
  C7, as amended. Given a checkpoint, the pull route returns the applications of the
  user whose \<^verbatim>\<open>updatedAt\<close> is strictly greater than it, and only those. The engine
  writes all rows of an answer in one transaction. When the pull is fulfilled, every
  application, contact and document of the answer has been written: under each
  \<^verbatim>\<open>id\<close> of a fetched row stands the last fetched row with that \<^verbatim>\<open>id\<close> (an
  application with \<^verbatim>\<open>lastSyncedAt\<close> set to the client's time), the rows under other
  keys and the sync queue are as before. The pull is fulfilled when the engine is
  online, the route's answer is read and none of the writes is rejected by the storage;
  when it is rejected, for whichever of these reasons, the database is as before. The
  checkpoint is not written with the rows: the store sets its
  \<^verbatim>\<open>lastSyncedAt\<close> to the client's clock once the pull is fulfilled, and leaves it as
  it was when the pull is rejected.
\<close>

theorem pull_all_or_nothing:
  "(GET_pull (Some uid) (Some t) now sdb = Some reply \<longrightarrow>
      set (reply_applications reply)
        = {a \<in> set (srv_applications sdb). userId a = uid \<and> t < updatedAt a})
   \<and> (fst (pullFromServer env uid engine db) = Inr ())
       = (isOnline engine
          \<and> (\<exists>d. pull_respond env uid = PullJson d
                \<and> (case put_fault env of
                      None \<Rightarrow> True
                    | Some k \<Rightarrow>
                        length (case pulled_applications d of None \<Rightarrow> [] | Some rows \<Rightarrow> rows)
                        + length (case pulled_contacts d of None \<Rightarrow> [] | Some rows \<Rightarrow> rows)
                        + length (case pulled_documents d of None \<Rightarrow> [] | Some rows \<Rightarrow> rows)
                        \<le> k)))
   \<and> (fst (pullFromServer env uid engine db) = Inr () \<longrightarrow>
        (\<exists>d. pull_respond env uid = PullJson d
           \<and> (\<forall>k. applications (snd (pullFromServer env uid engine db)) k
                 = (case find (\<lambda>a. app_id a = k)
                           (rev (case pulled_applications d of None \<Rightarrow> [] | Some rows \<Rightarrow> rows)) of
                      None \<Rightarrow> applications db k
                    | Some a \<Rightarrow> Some (a\<lparr>lastSyncedAt := pull_clock env\<rparr>)))
           \<and> (\<forall>k. contacts (snd (pullFromServer env uid engine db)) k
                 = (case find (\<lambda>c. c_id c = k)
                           (rev (case pulled_contacts d of None \<Rightarrow> [] | Some rows \<Rightarrow> rows)) of
                      None \<Rightarrow> contacts db k
                    | Some c \<Rightarrow> Some c))
           \<and> (\<forall>k. documents (snd (pullFromServer env uid engine db)) k
                 = (case find (\<lambda>d. d_id d = k)
                           (rev (case pulled_documents d of None \<Rightarrow> [] | Some rows \<Rightarrow> rows)) of
                      None \<Rightarrow> documents db k
                    | Some d \<Rightarrow> Some d))
           \<and> syncQueue (snd (pullFromServer env uid engine db)) = syncQueue db)
        \<and> store_pullFromServer env uid st engine db
            = (st\<lparr>syncStatus := status_success, syncError := None,
                  store_lastSyncedAt := Some (pull_clock env)\<rparr>,
               snd (pullFromServer env uid engine db)))
   \<and> (fst (pullFromServer env uid engine db) \<noteq> Inr () \<longrightarrow>
        snd (pullFromServer env uid engine db) = db
        \<and> snd (store_pullFromServer env uid st engine db) = db
        \<and> store_lastSyncedAt (fst (store_pullFromServer env uid st engine db))
            = store_lastSyncedAt st)"
proof (intro conjI impI)
  assume "GET_pull (Some uid) (Some t) now sdb = Some reply"
  then have "reply_applications reply
      = sort_key (\<lambda>a. - updatedAt a)
          (filter (\<lambda>a. userId a = uid \<and> t < updatedAt a) (srv_applications sdb))"
    by (auto simp: GET_pull_def)
  then show "set (reply_applications reply)
        = {a \<in> set (srv_applications sdb). userId a = uid \<and> t < updatedAt a}"
    by (simp only: set_sort_key_filter)
next
  show "(fst (pullFromServer env uid engine db) = Inr ())
       = (isOnline engine
          \<and> (\<exists>d. pull_respond env uid = PullJson d
                \<and> (case put_fault env of
                      None \<Rightarrow> True
                    | Some k \<Rightarrow>
                        length (case pulled_applications d of None \<Rightarrow> [] | Some rows \<Rightarrow> rows)
                        + length (case pulled_contacts d of None \<Rightarrow> [] | Some rows \<Rightarrow> rows)
                        + length (case pulled_documents d of None \<Rightarrow> [] | Some rows \<Rightarrow> rows)
                        \<le> k)))"
    by (rule pullFromServer_fulfilled_iff)
next
  assume ok: "fst (pullFromServer env uid engine db) = Inr ()"
  from pullFromServer_fulfilled [OF ok] obtain d
    where d: "pull_respond env uid = PullJson d"
      and db1: "snd (pullFromServer env uid engine db)
          = fold put_row (pull_writes (pull_clock env) d) db"
    by blast
  show "\<exists>d. pull_respond env uid = PullJson d
           \<and> (\<forall>k. applications (snd (pullFromServer env uid engine db)) k
                 = (case find (\<lambda>a. app_id a = k)
                           (rev (case pulled_applications d of None \<Rightarrow> [] | Some rows \<Rightarrow> rows)) of
                      None \<Rightarrow> applications db k
                    | Some a \<Rightarrow> Some (a\<lparr>lastSyncedAt := pull_clock env\<rparr>)))
           \<and> (\<forall>k. contacts (snd (pullFromServer env uid engine db)) k
                 = (case find (\<lambda>c. c_id c = k)
                           (rev (case pulled_contacts d of None \<Rightarrow> [] | Some rows \<Rightarrow> rows)) of
                      None \<Rightarrow> contacts db k
                    | Some c \<Rightarrow> Some c))
           \<and> (\<forall>k. documents (snd (pullFromServer env uid engine db)) k
                 = (case find (\<lambda>d. d_id d = k)
                           (rev (case pulled_documents d of None \<Rightarrow> [] | Some rows \<Rightarrow> rows)) of
                      None \<Rightarrow> documents db k
                    | Some d \<Rightarrow> Some d))
           \<and> syncQueue (snd (pullFromServer env uid engine db)) = syncQueue db"
    unfolding db1
    by (intro exI [of _ d] conjI allI d written_pull)
  show "store_pullFromServer env uid st engine db
            = (st\<lparr>syncStatus := status_success, syncError := None,
                  store_lastSyncedAt := Some (pull_clock env)\<rparr>,
               snd (pullFromServer env uid engine db))"
    using ok by (cases "pullFromServer env uid engine db") (simp add: store_pullFromServer_def)
next
  assume bad: "fst (pullFromServer env uid engine db) \<noteq> Inr ()"
  show same: "snd (pullFromServer env uid engine db) = db"
    by (rule pullFromServer_rejected [OF bad])
  obtain result db1 where r: "pullFromServer env uid engine db = (result, db1)"
    by (cases "pullFromServer env uid engine db")
  with bad obtain msg where "result = Inl msg"
    by (cases result) auto
  with r same show "snd (store_pullFromServer env uid st engine db) = db"
    and "store_lastSyncedAt (fst (store_pullFromServer env uid st engine db))
            = store_lastSyncedAt st"
    by (simp_all add: store_pullFromServer_def)
qed

theorem pull_all_or_nothing_witness:
  "set (reply_applications
          \<lparr>reply_applications = [server_row], reply_contacts = [old_contact],
             reply_documents = [], reply_timestamp = 1000\<rparr>)
     = {a \<in> set (srv_applications example_server). userId a = ''user-1'' \<and> 100 < updatedAt a}
   \<and> applications (snd (pullFromServer pulling_env ''user-1'' idle_engine example_db)) ''app-1''
       = Some (server_row\<lparr>lastSyncedAt := 2000\<rparr>)
   \<and> contacts (snd (pullFromServer pulling_env ''user-1'' idle_engine example_db)) ''contact-1''
       = Some old_contact
   \<and> syncQueue (snd (pullFromServer pulling_env ''user-1'' idle_engine example_db))
       = syncQueue example_db
   \<and> store_pullFromServer pulling_env ''user-1'' online_store idle_engine example_db
       = (online_store\<lparr>syncStatus := status_success, syncError := None,
                       store_lastSyncedAt := Some (pull_clock pulling_env)\<rparr>,
          snd (pullFromServer pulling_env ''user-1'' idle_engine example_db))
   \<and> snd (pullFromServer breaking_env ''user-1'' idle_engine example_db) = example_db
   \<and> snd (store_pullFromServer breaking_env ''user-1'' online_store idle_engine example_db)
       = example_db
   \<and> store_lastSyncedAt
        (fst (store_pullFromServer breaking_env ''user-1'' online_store idle_engine example_db))
       = store_lastSyncedAt online_store"
proof -
  have served: "GET_pull (Some ''user-1'') (Some 100) 1000 example_server
      = Some \<lparr>reply_applications = [server_row], reply_contacts = [old_contact],
               reply_documents = [], reply_timestamp = 1000\<rparr>"
    by (simp add: GET_pull_def example_server_def server_row_def local_row_def owned_by_def
        old_contact_def)
  have ok: "fst (pullFromServer pulling_env ''user-1'' idle_engine example_db) = Inr ()"
    by (simp add: pullFromServer_def pulling_env_def idle_engine_def transaction_def
        pull_writes_def rows_or_none_def)
  have bad: "fst (pullFromServer breaking_env ''user-1'' idle_engine example_db) \<noteq> Inr ()"
    by (simp add: pullFromServer_def breaking_env_def pulling_env_def idle_engine_def
        transaction_def pull_writes_def rows_or_none_def)
  have answer: "pull_respond pulling_env ''user-1''
      = PullJson \<lparr>pulled_applications = Some [server_row],
                  pulled_contacts = Some [old_contact], pulled_documents = None\<rparr>"
    and clock: "pull_clock pulling_env = 2000"
    by (simp_all add: pulling_env_def)
  note fact = pull_all_or_nothing [of "''user-1''" 100 1000 example_server _ pulling_env
      idle_engine example_db online_store]
  from fact served have first: "set (reply_applications
          \<lparr>reply_applications = [server_row], reply_contacts = [old_contact],
             reply_documents = [], reply_timestamp = 1000\<rparr>)
     = {a \<in> set (srv_applications example_server). userId a = ''user-1'' \<and> 100 < updatedAt a}"
    by blast
  from fact ok obtain d where d: "pull_respond pulling_env ''user-1'' = PullJson d"
    and apps: "\<And>k. applications (snd (pullFromServer pulling_env ''user-1'' idle_engine example_db)) k
                 = (case find (\<lambda>a. app_id a = k)
                           (rev (case pulled_applications d of None \<Rightarrow> [] | Some rows \<Rightarrow> rows)) of
                      None \<Rightarrow> applications example_db k
                    | Some a \<Rightarrow> Some (a\<lparr>lastSyncedAt := pull_clock pulling_env\<rparr>))"
    and cons: "\<And>k. contacts (snd (pullFromServer pulling_env ''user-1'' idle_engine example_db)) k
                 = (case find (\<lambda>c. c_id c = k)
                           (rev (case pulled_contacts d of None \<Rightarrow> [] | Some rows \<Rightarrow> rows)) of
                      None \<Rightarrow> contacts example_db k
                    | Some c \<Rightarrow> Some c)"
    and queue: "syncQueue (snd (pullFromServer pulling_env ''user-1'' idle_engine example_db))
        = syncQueue example_db"
    and store: "store_pullFromServer pulling_env ''user-1'' online_store idle_engine example_db
       = (online_store\<lparr>syncStatus := status_success, syncError := None,
                       store_lastSyncedAt := Some (pull_clock pulling_env)\<rparr>,
          snd (pullFromServer pulling_env ''user-1'' idle_engine example_db))"
    by blast
  from d answer have d_is: "d = \<lparr>pulled_applications = Some [server_row],
                  pulled_contacts = Some [old_contact], pulled_documents = None\<rparr>"
    by simp
  have app: "applications (snd (pullFromServer pulling_env ''user-1'' idle_engine example_db))
        ''app-1'' = Some (server_row\<lparr>lastSyncedAt := 2000\<rparr>)"
    unfolding apps d_is clock by (simp add: server_row_def local_row_def)
  have con: "contacts (snd (pullFromServer pulling_env ''user-1'' idle_engine example_db))
        ''contact-1'' = Some old_contact"
    unfolding cons d_is by (simp add: old_contact_def)
  from pull_all_or_nothing [of "''user-1''" 100 1000 example_server _ breaking_env idle_engine
      example_db online_store] bad
  have last: "snd (pullFromServer breaking_env ''user-1'' idle_engine example_db) = example_db
   \<and> snd (store_pullFromServer breaking_env ''user-1'' online_store idle_engine example_db)
       = example_db
   \<and> store_lastSyncedAt
        (fst (store_pullFromServer breaking_env ''user-1'' online_store idle_engine example_db))
       = store_lastSyncedAt online_store"
    by blast
  from first app con queue store last show ?thesis by blast
qed

text \<open>
  Against C7 as stated: a pull with the checkpoint 200 returns a contact last updated
  at 50; and when the engine's transaction has committed the rows of a pull, the
  store's \<^verbatim>\<open>lastSyncedAt\<close> is still the old one.
\<close>

theorem pull_checkpoint_apart:
  "map_option reply_contacts (GET_pull (Some ''user-1'') (Some 200) 1000 example_server)
     = Some [old_contact]
   \<and> c_updatedAt old_contact \<le> 200
   \<and> map_option version
        (applications (snd (store_pullFromServer_states pulling_env ''user-1'' online_store
           idle_engine example_db ! 1)) ''app-1'') = Some 4
   \<and> map_option version (applications example_db ''app-1'') = Some 3
   \<and> store_lastSyncedAt (fst (store_pullFromServer_states pulling_env ''user-1'' online_store
        idle_engine example_db ! 1)) = store_lastSyncedAt online_store"
  by (simp add: GET_pull_def example_server_def server_row_def local_row_def owned_by_def
      old_contact_def store_pullFromServer_states_def pullFromServer_def pulling_env_def
      idle_engine_def transaction_def pull_writes_def rows_or_none_def example_db_def
      online_store_def Let_def)

end
